theory Spec2Isabelle
  imports Complex_Main "HOL-Library.Log_Nat"
begin

section \<open>Transaction submission and confirmation\<close>

text \<open>
  The RPC connection and the wallet are external collaborators. They are modelled by
  the answers they give: every awaited call either yields a value (\<open>Inr\<close>) or throws
  an error with a message (\<open>Inl\<close>). The confirmation promise additionally carries the
  time at which it settles, because \<open>sendTransaction\<close> races it against a timer;
  \<open>None\<close> is a promise that never settles.
\<close>

datatype instruction =
    SetComputeUnitLimit nat
  | SetComputeUnitPrice nat
  | ProgramIx string

record transaction =
  recentBlockhash :: string
  feePayer :: string
  instructions :: "instruction list"
  signatures :: "string list"

record blockref =
  blockhash :: string
  lastValidBlockHeight :: nat

record send_opts =
  skipPreflight :: bool
  preflightCommitment :: string
  maxRetries :: nat

record confirm_strategy =
  cs_signature :: string
  cs_blockhash :: string
  cs_lastValidBlockHeight :: nat

text \<open>
  What \<open>connection.confirmTransaction\<close> settles with: it resolves with an object whose
  \<open>value.err\<close> is null (\<open>None\<close>) or a protocol error (its JSON text), or it rejects.
\<close>

datatype confirmation =
    Resolved "string option"
  | Rejected string

record confirm_event =
  reply :: confirmation
  settles_at :: nat

datatype commitment = Processed | Confirmed | Finalized

record sig_status =
  confirmationStatus :: "commitment option"
  status_err :: "string option"

text \<open>
  What \<open>connection.getSignatureStatus\<close> answers: an object whose \<open>value\<close> is null
  (no record of the signature) or a status, or the call throws.
\<close>

datatype status_reply =
    StatusValue "sig_status option"
  | StatusThrows string

record connection =
  getLatestBlockhash :: "string + blockref"
  sendRawTransaction :: "transaction \<Rightarrow> send_opts \<Rightarrow> string + string"
  confirmTransaction :: "confirm_strategy \<Rightarrow> string \<Rightarrow> confirm_event option"
  getSignatureStatus :: "string \<Rightarrow> status_reply"

text \<open>
  A wallet adapter: \<open>signTransaction\<close> is absent (\<open>None\<close>) while the wallet is not
  ready; when present it signs or throws (the user declined).
\<close>

record wallet =
  publicKey :: string
  signTransaction :: "(transaction \<Rightarrow> string + transaction) option"

definition TX_TIMEOUT :: nat where
  "TX_TIMEOUT = 60000"

definition COMPUTE_UNITS_DEFAULT :: nat where
  "COMPUTE_UNITS_DEFAULT = 800000"

definition COMPUTE_UNITS_MICROLAMPORTS_PER_UNIT :: nat where
  "COMPUTE_UNITS_MICROLAMPORTS_PER_UNIT = 1"

text \<open>The options both senders pass to \<open>sendRawTransaction\<close>.\<close>

definition raw_send_opts :: send_opts where
  "raw_send_opts = \<lparr>skipPreflight = False, preflightCommitment = ''confirmed'', maxRetries = 3\<rparr>"

definition partialSign :: "transaction \<Rightarrow> string \<Rightarrow> transaction" where
  "partialSign tx signer = tx\<lparr>signatures := signatures tx @ [signer]\<rparr>"

definition confirmation_strategy :: "string \<Rightarrow> blockref \<Rightarrow> confirm_strategy" where
  "confirmation_strategy txSig br =
     \<lparr>cs_signature = txSig, cs_blockhash = blockhash br,
      cs_lastValidBlockHeight = lastValidBlockHeight br\<rparr>"

text \<open>
  \<open>Promise.race([confirm, timer])\<close>: the confirmation wins when it settles before the
  timer fires after \<open>ms\<close> milliseconds; otherwise the timer rejects with the timeout
  error.
\<close>

definition race_timeout :: "confirm_event option \<Rightarrow> nat \<Rightarrow> confirmation" where
  "race_timeout ev ms =
     (case ev of
        None \<Rightarrow> Rejected ''Transaction confirmation timeout''
      | Some e \<Rightarrow>
          if settles_at e < ms then reply e
          else Rejected ''Transaction confirmation timeout'')"

text \<open>
  \<open>status?.value?.confirmationStatus === 'confirmed' || ... === 'finalized'\<close>
  (sendTransaction, line 64).
\<close>

definition landed :: "sig_status option \<Rightarrow> bool" where
  "landed st =
     (case st of
        None \<Rightarrow> False
      | Some s \<Rightarrow> confirmationStatus s = Some Confirmed \<or> confirmationStatus s = Some Finalized)"

text \<open>
  Lines 39--72 of \<open>sendTransaction\<close>: the inner \<open>try\<close> holds the race and the
  \<open>throw\<close> for a confirmation that carries an error; its \<open>catch\<close> receives whatever
  the \<open>try\<close> threw, looks the signature up, and returns the signature or rethrows.
\<close>

definition sendTransaction_confirm :: "connection \<Rightarrow> string \<Rightarrow> blockref \<Rightarrow> string + string" where
  "sendTransaction_confirm conn txSig br =
     (let attempt =
        (case race_timeout (confirmTransaction conn (confirmation_strategy txSig br) ''confirmed'')
                TX_TIMEOUT of
           Resolved None \<Rightarrow> Inr txSig
         | Resolved (Some err) \<Rightarrow> Inl (''Transaction failed: '' @ err)
         | Rejected e \<Rightarrow> Inl e)
      in case attempt of
           Inr s \<Rightarrow> Inr s
         | Inl confirmError \<Rightarrow>
             (case getSignatureStatus conn txSig of
                StatusThrows e \<Rightarrow> Inl e
              | StatusValue st \<Rightarrow> if landed st then Inr txSig else Inl confirmError))"

text \<open>
  \<open>sendTransaction(connection, wallet, instructions, signers)\<close>. The outer
  \<open>catch\<close> only logs and rethrows, so every error is the function's result.
  \<open>wallet.publicKey\<close> is read before the readiness check, so a null wallet throws a
  TypeError there.
\<close>

definition sendTransaction ::
  "connection \<Rightarrow> wallet option \<Rightarrow> instruction list \<Rightarrow> string list \<Rightarrow> string + string" where
  "sendTransaction conn w ixs signers =
     (case getLatestBlockhash conn of
        Inl e \<Rightarrow> Inl e
      | Inr br \<Rightarrow>
          (case w of
             None \<Rightarrow> Inl ''TypeError: Cannot read properties of null''
           | Some wal \<Rightarrow>
               (let tx = \<lparr>recentBlockhash = blockhash br, feePayer = publicKey wal,
                          instructions = SetComputeUnitLimit COMPUTE_UNITS_DEFAULT # ixs,
                          signatures = []\<rparr>
                in case signTransaction wal of
                     None \<Rightarrow> Inl ''Wallet not ready''
                   | Some sign \<Rightarrow>
                       (case sign tx of
                          Inl e \<Rightarrow> Inl e
                        | Inr signedTx0 \<Rightarrow>
                            (let signedTx = foldl partialSign signedTx0 signers
                             in case sendRawTransaction conn signedTx raw_send_opts of
                                  Inl e \<Rightarrow> Inl e
                                | Inr txSig \<Rightarrow> sendTransaction_confirm conn txSig br)))))"

subsection \<open>TransactionBuilder\<close>

record builder =
  b_connection :: connection
  b_wallet :: "wallet option"
  b_instructions :: "instruction list"
  b_signers :: "string list"

definition new_builder :: "connection \<Rightarrow> wallet option \<Rightarrow> builder" where
  "new_builder conn w =
     \<lparr>b_connection = conn, b_wallet = w, b_instructions = [], b_signers = []\<rparr>"

definition addComputeBudget :: "nat \<Rightarrow> nat \<Rightarrow> builder \<Rightarrow> builder" where
  "addComputeBudget units microLamports b =
     b\<lparr>b_instructions :=
         SetComputeUnitLimit units # SetComputeUnitPrice microLamports # b_instructions b\<rparr>"

definition addInstruction :: "instruction \<Rightarrow> builder \<Rightarrow> builder" where
  "addInstruction ix b = b\<lparr>b_instructions := b_instructions b @ [ix]\<rparr>"

definition addSigner :: "string \<Rightarrow> builder \<Rightarrow> builder" where
  "addSigner s b = b\<lparr>b_signers := b_signers b @ [s]\<rparr>"

text \<open>\<open>build()\<close>: the signed transaction with the block reference it was built on.\<close>

definition build :: "builder \<Rightarrow> string + (transaction \<times> blockref)" where
  "build b =
     (case getLatestBlockhash (b_connection b) of
        Inl e \<Rightarrow> Inl e
      | Inr br \<Rightarrow>
          (case b_wallet b of
             None \<Rightarrow> Inl ''TypeError: Cannot read properties of null''
           | Some wal \<Rightarrow>
               (let tx = \<lparr>recentBlockhash = blockhash br, feePayer = publicKey wal,
                          instructions = b_instructions b, signatures = []\<rparr>
                in case signTransaction wal of
                     None \<Rightarrow> Inl ''TypeError: signTransaction is not a function''
                   | Some sign \<Rightarrow>
                       (case sign tx of
                          Inl e \<Rightarrow> Inl e
                        | Inr signedTx0 \<Rightarrow> Inr (foldl partialSign signedTx0 (b_signers b), br)))))"

text \<open>
  \<open>buildAndSend()\<close>: the confirmation is awaited on its own, so the result is
  \<open>None\<close> when that promise never settles. The resolved value is not inspected.
\<close>

definition buildAndSend :: "builder \<Rightarrow> (string + string) option" where
  "buildAndSend b =
     (case build b of
        Inl e \<Rightarrow> Some (Inl e)
      | Inr (signedTx, br) \<Rightarrow>
          (case sendRawTransaction (b_connection b) signedTx raw_send_opts of
             Inl e \<Rightarrow> Some (Inl e)
           | Inr txSig \<Rightarrow>
               (case confirmTransaction (b_connection b) (confirmation_strategy txSig br)
                       ''confirmed'' of
                  None \<Rightarrow> None
                | Some ev \<Rightarrow>
                    (case reply ev of
                       Resolved v \<Rightarrow> Some (Inr txSig)
                     | Rejected e \<Rightarrow> Some (Inl e)))))"

section \<open>JavaScript numbers\<close>

text \<open>
  A JavaScript number is an IEEE 754 binary64 value: a finite rational (with \<open>Fin 0\<close>
  for \<open>+0\<close>), negative zero, an infinity or NaN. Every arithmetic operation computes
  the exact result and rounds it. The rounding is a parameter \<open>rnd\<close> of the
  operations, so that the same definitions give the code as it runs
  (\<open>rnd = binary64\<close>, round to nearest, ties to even) and its reading in exact
  arithmetic (\<open>rnd = Fin\<close>), in which the formulas of the pricing functions can be
  compared with closed forms.
\<close>

datatype jsnum = Fin rat | NegZero | PosInf | NegInf | NaN

definition round_half_even :: "rat \<Rightarrow> int" where
  "round_half_even q =
     (let f = \<lfloor>q\<rfloor>; d = q - of_int f
      in if d < 1 / 2 then f else if 1 / 2 < d then f + 1 else if even f then f else f + 1)"

text \<open>\<open>flog2 q\<close> is \<open>\<lfloor>log\<^sub>2 q\<rfloor>\<close> for a positive rational \<open>q\<close>.\<close>

definition flog2 :: "rat \<Rightarrow> int" where
  "flog2 q = (if 1 \<le> q then bitlen \<lfloor>q\<rfloor> - 1 else - bitlen (\<lceil>1 / q\<rceil> - 1))"

definition pow2 :: "int \<Rightarrow> rat" where
  "pow2 e = (if 0 \<le> e then 2 ^ nat e else 1 / 2 ^ nat (- e))"

text \<open>
  Rounding of an exact result to binary64: 53 significant bits, the least exponent of
  a unit in the last place is \<open>-1074\<close> (subnormal numbers), and a rounded magnitude
  of \<open>2\<^sup>1\<^sup>0\<^sup>2\<^sup>4\<close> or more is infinite. A nonzero result that rounds to zero keeps
  its sign.
\<close>

definition binary64 :: "rat \<Rightarrow> jsnum" where
  "binary64 q =
     (if q = 0 then Fin 0
      else
        let a = \<bar>q\<bar>;
            e = max (flog2 a - 52) (- 1074);
            m = round_half_even (a / pow2 e);
            r = of_int m * pow2 e
        in if pow2 1024 \<le> r then (if 0 < q then PosInf else NegInf)
           else if m = 0 then (if 0 < q then Fin 0 else NegZero)
           else Fin (if 0 < q then r else - r))"

definition js_val :: "jsnum \<Rightarrow> rat" where
  "js_val x = (case x of Fin q \<Rightarrow> q | _ \<Rightarrow> 0)"

definition js_finite :: "jsnum \<Rightarrow> bool" where
  "js_finite x = (case x of Fin q \<Rightarrow> True | NegZero \<Rightarrow> True | _ \<Rightarrow> False)"

definition js_is_zero :: "jsnum \<Rightarrow> bool" where
  "js_is_zero x = (case x of Fin q \<Rightarrow> q = 0 | NegZero \<Rightarrow> True | _ \<Rightarrow> False)"

text \<open>The sign bit.\<close>

definition js_negative :: "jsnum \<Rightarrow> bool" where
  "js_negative x = (case x of Fin q \<Rightarrow> q < 0 | NegZero \<Rightarrow> True | NegInf \<Rightarrow> True | _ \<Rightarrow> False)"

definition js_zero :: "bool \<Rightarrow> jsnum" where
  "js_zero negative = (if negative then NegZero else Fin 0)"

definition js_inf :: "bool \<Rightarrow> jsnum" where
  "js_inf negative = (if negative then NegInf else PosInf)"

definition js_neg :: "jsnum \<Rightarrow> jsnum" where
  "js_neg x =
     (case x of
        Fin q \<Rightarrow> if q = 0 then NegZero else Fin (- q)
      | NegZero \<Rightarrow> Fin 0
      | PosInf \<Rightarrow> NegInf
      | NegInf \<Rightarrow> PosInf
      | NaN \<Rightarrow> NaN)"

definition js_add :: "(rat \<Rightarrow> jsnum) \<Rightarrow> jsnum \<Rightarrow> jsnum \<Rightarrow> jsnum" where
  "js_add rnd x y =
     (if x = NaN \<or> y = NaN then NaN
      else if \<not> js_finite x then (if \<not> js_finite y \<and> x \<noteq> y then NaN else x)
      else if \<not> js_finite y then y
      else if js_is_zero x \<and> js_is_zero y then js_zero (js_negative x \<and> js_negative y)
      else if js_val x + js_val y = 0 then Fin 0
      else rnd (js_val x + js_val y))"

definition js_sub :: "(rat \<Rightarrow> jsnum) \<Rightarrow> jsnum \<Rightarrow> jsnum \<Rightarrow> jsnum" where
  "js_sub rnd x y = js_add rnd x (js_neg y)"

definition js_mul :: "(rat \<Rightarrow> jsnum) \<Rightarrow> jsnum \<Rightarrow> jsnum \<Rightarrow> jsnum" where
  "js_mul rnd x y =
     (let s = (js_negative x \<noteq> js_negative y)
      in if x = NaN \<or> y = NaN then NaN
         else if \<not> js_finite x \<or> \<not> js_finite y then
           (if js_is_zero x \<or> js_is_zero y then NaN else js_inf s)
         else if js_is_zero x \<or> js_is_zero y then js_zero s
         else rnd (js_val x * js_val y))"

definition js_div :: "(rat \<Rightarrow> jsnum) \<Rightarrow> jsnum \<Rightarrow> jsnum \<Rightarrow> jsnum" where
  "js_div rnd x y =
     (let s = (js_negative x \<noteq> js_negative y)
      in if x = NaN \<or> y = NaN then NaN
         else if \<not> js_finite x then (if \<not> js_finite y then NaN else js_inf s)
         else if \<not> js_finite y then js_zero s
         else if js_is_zero y then (if js_is_zero x then NaN else js_inf s)
         else if js_is_zero x then js_zero s
         else rnd (js_val x / js_val y))"

definition js_abs :: "jsnum \<Rightarrow> jsnum" where
  "js_abs x =
     (case x of
        Fin q \<Rightarrow> Fin \<bar>q\<bar>
      | NegZero \<Rightarrow> Fin 0
      | PosInf \<Rightarrow> PosInf
      | NegInf \<Rightarrow> PosInf
      | NaN \<Rightarrow> NaN)"

text \<open>\<open>Math.floor\<close>: exact on finite numbers, the identity elsewhere.\<close>

definition js_floor :: "jsnum \<Rightarrow> jsnum" where
  "js_floor x = (case x of Fin q \<Rightarrow> Fin (of_int \<lfloor>q\<rfloor>) | _ \<Rightarrow> x)"

text \<open>\<open>Math.min\<close> of two numbers: NaN when either is, and \<open>-0\<close> below \<open>+0\<close>.\<close>

definition js_min :: "jsnum \<Rightarrow> jsnum \<Rightarrow> jsnum" where
  "js_min x y =
     (if x = NaN \<or> y = NaN then NaN
      else if x = NegInf \<or> y = NegInf then NegInf
      else if x = PosInf then y
      else if y = PosInf then x
      else if js_val x < js_val y then x
      else if js_val y < js_val x then y
      else if js_negative x then x else y)"

text \<open>The comparison \<open>x <= 0\<close> and the truth value of a number (\<open>0\<close>, \<open>-0\<close> and NaN are falsy).\<close>

definition js_le_zero :: "jsnum \<Rightarrow> bool" where
  "js_le_zero x = (case x of Fin q \<Rightarrow> q \<le> 0 | NegZero \<Rightarrow> True | NegInf \<Rightarrow> True | _ \<Rightarrow> False)"

definition js_truthy :: "jsnum \<Rightarrow> bool" where
  "js_truthy x = (x \<noteq> NaN \<and> \<not> js_is_zero x)"

text \<open>\<open>js_is x q\<close>: the number \<open>x\<close> is finite and its value is \<open>q\<close>.\<close>

definition js_is :: "jsnum \<Rightarrow> rat \<Rightarrow> bool" where
  "js_is x q = (js_finite x \<and> js_val x = q)"

section \<open>Big integers (bn.js)\<close>

text \<open>
  A \<open>BN\<close> is an arbitrary-precision signed integer, modelled by \<open>int\<close>. Its \<open>div\<close>
  truncates towards zero and throws on a zero divisor; \<open>toNumber\<close> throws unless the
  value fits 53 bits. The constructor from a number initialises from \<open>number || 0\<close>,
  so that NaN, like both zeros, gives \<open>BN(0)\<close>; it takes the sign, drops the
  fraction of the magnitude, and asserts that the magnitude is below \<open>2\<^sup>5\<^sup>3\<close>,
  which fails for the infinities.
\<close>

datatype js_error = BNAssertion | TypeError

definition bn_div :: "int \<Rightarrow> int \<Rightarrow> js_error + int" where
  "bn_div a b = (if b = 0 then Inl BNAssertion else Inr (sgn a * sgn b * (\<bar>a\<bar> div \<bar>b\<bar>)))"

definition bn_toNumber :: "int \<Rightarrow> js_error + jsnum" where
  "bn_toNumber a = (if \<bar>a\<bar> < 2 ^ 53 then Inr (Fin (of_int a)) else Inl BNAssertion)"

definition bn_of_number :: "jsnum \<Rightarrow> js_error + int" where
  "bn_of_number x =
     (case x of
        Fin q \<Rightarrow>
          if \<bar>q\<bar> < 2 ^ 53 then Inr (if q < 0 then - \<lfloor>- q\<rfloor> else \<lfloor>q\<rfloor>)
          else Inl BNAssertion
      | NegZero \<Rightarrow> Inr 0
      | NaN \<Rightarrow> Inr 0
      | _ \<Rightarrow> Inl BNAssertion)"

text \<open>\<open>Number(bn.toString())\<close>: the decimal string is read as the nearest number.\<close>

definition bn_to_Number_via_string :: "(rat \<Rightarrow> jsnum) \<Rightarrow> int \<Rightarrow> jsnum" where
  "bn_to_Number_via_string rnd a = rnd (of_int a)"

section \<open>Constants\<close>

definition DEFAULT_TRADING_FEE :: int where
  "DEFAULT_TRADING_FEE = 100"

definition PERCENTAGE_BASIS_POINTS :: rat where
  "PERCENTAGE_BASIS_POINTS = 10000"

definition USDC_DECIMALS :: nat where
  "USDC_DECIMALS = 6"

definition TOKEN_DECIMALS :: nat where
  "TOKEN_DECIMALS = 9"

text \<open>
  \<open>Math.pow(10, n)\<close>: the nearest number to the power (exact up to \<open>n = 22\<close>, which
  covers every decimals count the application uses).
\<close>

definition js_pow10 :: "(rat \<Rightarrow> jsnum) \<Rightarrow> nat \<Rightarrow> jsnum" where
  "js_pow10 rnd n = rnd (10 ^ n)"

section \<open>Bonding curve pricing (calculations.js)\<close>

text \<open>
  Account data as the client decodes it: reserves and amounts are \<open>BN\<close> values, the
  taxes are plain numbers (basis points). \<open>params\<close> and the configuration's
  \<open>tradingFee\<close> are read through optional chaining, so either may be absent.
\<close>

record pool_params =
  buyTax :: int
  sellTax :: int

record pool =
  reserveStableMint :: int
  stableReserveVirtual :: int
  reserveProjectMint :: int
  tokenReserveVirtual :: int
  totalSellAmount :: int
  params :: "pool_params option"

record config =
  tradingFee :: "int option"

record buy_quote =
  tokensOut :: jsnum
  priceImpact :: jsnum
  fee :: jsnum
  tax :: "jsnum option"

record sell_quote =
  usdcOut :: jsnum
  sell_priceImpact :: jsnum
  sell_fee :: jsnum
  sell_tax :: "jsnum option"

text \<open>
  \<open>calculateCurrentPrice\<close>: the body of the \<open>try\<close> is all \<open>BN\<close> arithmetic up to the
  final division by 1000; whatever it throws is turned into 0 by the \<open>catch\<close>.
\<close>

definition calculateCurrentPrice_try :: "(rat \<Rightarrow> jsnum) \<Rightarrow> pool option \<Rightarrow> js_error + jsnum" where
  "calculateCurrentPrice_try rnd poolData =
     (case poolData of
        None \<Rightarrow> Inr (Fin 0)
      | Some p \<Rightarrow>
          (let totalStable = reserveStableMint p + stableReserveVirtual p;
               totalToken = reserveProjectMint p + tokenReserveVirtual p
           in if totalToken = 0 then Inr (Fin 0)
              else
                (let stableWithDecimals = totalStable * 1000
                 in case bn_div stableWithDecimals totalToken of
                      Inl e \<Rightarrow> Inl e
                    | Inr price \<Rightarrow>
                        (case bn_toNumber price of
                           Inl e \<Rightarrow> Inl e
                         | Inr n \<Rightarrow> Inr (js_div rnd n (Fin 1000))))))"

definition calculateCurrentPrice :: "(rat \<Rightarrow> jsnum) \<Rightarrow> pool option \<Rightarrow> jsnum" where
  "calculateCurrentPrice rnd poolData =
     (case calculateCurrentPrice_try rnd poolData of Inl e \<Rightarrow> Fin 0 | Inr v \<Rightarrow> v)"

text \<open>
  \<open>config?.tradingFee?.toNumber() || FEES.DEFAULT_TRADING_FEE\<close>: the default stands
  in for an absent configuration or fee, and for a fee of zero, which is falsy.
\<close>

definition trading_fee_number :: "config option \<Rightarrow> js_error + jsnum" where
  "trading_fee_number cfg =
     (case cfg of
        None \<Rightarrow> Inr (Fin (of_int DEFAULT_TRADING_FEE))
      | Some c \<Rightarrow>
          (case tradingFee c of
             None \<Rightarrow> Inr (Fin (of_int DEFAULT_TRADING_FEE))
           | Some bn \<Rightarrow>
               (case bn_toNumber bn of
                  Inl e \<Rightarrow> Inl e
                | Inr n \<Rightarrow> Inr (if js_truthy n then n else Fin (of_int DEFAULT_TRADING_FEE)))))"

text \<open>\<open>(poolData.params?.buyTax || 0)\<close> and its sell counterpart.\<close>

definition buy_tax_number :: "pool \<Rightarrow> jsnum" where
  "buy_tax_number p = (case params p of None \<Rightarrow> Fin 0 | Some ps \<Rightarrow> Fin (of_int (buyTax ps)))"

definition sell_tax_number :: "pool \<Rightarrow> jsnum" where
  "sell_tax_number p = (case params p of None \<Rightarrow> Fin 0 | Some ps \<Rightarrow> Fin (of_int (sellTax ps)))"

text \<open>
  The reserves in whole units, as lines 58--61 and 112--115 compute them: each
  \<open>BN\<close> is printed, read back as a number, and divided by the power of ten.
\<close>

definition totalStable_number :: "(rat \<Rightarrow> jsnum) \<Rightarrow> pool \<Rightarrow> jsnum" where
  "totalStable_number rnd p =
     js_add rnd
       (js_div rnd (bn_to_Number_via_string rnd (reserveStableMint p)) (js_pow10 rnd USDC_DECIMALS))
       (js_div rnd (bn_to_Number_via_string rnd (stableReserveVirtual p)) (js_pow10 rnd USDC_DECIMALS))"

definition totalToken_number :: "(rat \<Rightarrow> jsnum) \<Rightarrow> pool \<Rightarrow> jsnum" where
  "totalToken_number rnd p =
     js_add rnd
       (js_div rnd (bn_to_Number_via_string rnd (reserveProjectMint p)) (js_pow10 rnd TOKEN_DECIMALS))
       (js_div rnd (bn_to_Number_via_string rnd (tokenReserveVirtual p)) (js_pow10 rnd TOKEN_DECIMALS))"

definition zero_buy_quote :: "jsnum option \<Rightarrow> buy_quote" where
  "zero_buy_quote t = \<lparr>tokensOut = Fin 0, priceImpact = Fin 0, fee = Fin 0, tax = t\<rparr>"

definition zero_sell_quote :: "jsnum option \<Rightarrow> sell_quote" where
  "zero_sell_quote t = \<lparr>usdcOut = Fin 0, sell_priceImpact = Fin 0, sell_fee = Fin 0, sell_tax = t\<rparr>"

text \<open>
  \<open>calculateBuyTokensOut(poolData, usdcAmount, config)\<close>. \<open>usdcAmount\<close> is \<open>None\<close>
  when the argument is undefined. The guard returns the zero quote without a
  \<open>tax\<close> field; the \<open>catch\<close> (reached when \<open>toNumber\<close> throws) returns it with one.
  Local names that coincide with a field name carry a prime.
\<close>

definition calculateBuyTokensOut ::
  "(rat \<Rightarrow> jsnum) \<Rightarrow> pool option \<Rightarrow> jsnum option \<Rightarrow> config option \<Rightarrow> buy_quote" where
  "calculateBuyTokensOut rnd poolData usdcAmount cfg =
     (case (poolData, usdcAmount) of
        (None, _) \<Rightarrow> zero_buy_quote None
      | (_, None) \<Rightarrow> zero_buy_quote None
      | (Some p, Some usdc) \<Rightarrow>
          if \<not> js_truthy usdc \<or> js_le_zero usdc then zero_buy_quote None
          else
            (case trading_fee_number cfg of
               Inl e \<Rightarrow> zero_buy_quote (Some (Fin 0))
             | Inr tradingFee' \<Rightarrow>
                 (let feeAmount = js_mul rnd usdc (js_div rnd tradingFee' (Fin PERCENTAGE_BASIS_POINTS));
                      amountAfterFee = js_sub rnd usdc feeAmount;
                      totalStable = totalStable_number rnd p;
                      totalToken = totalToken_number rnd p;
                      k = js_mul rnd totalStable totalToken;
                      newStable = js_add rnd totalStable amountAfterFee;
                      newToken = js_div rnd k newStable;
                      tokensOut' = js_sub rnd totalToken newToken;
                      buyTax' = js_div rnd (buy_tax_number p) (Fin PERCENTAGE_BASIS_POINTS);
                      taxAmount = js_mul rnd tokensOut' buyTax';
                      netTokensOut = js_sub rnd tokensOut' taxAmount;
                      oldPrice = js_div rnd totalStable totalToken;
                      newPrice = js_div rnd newStable newToken;
                      priceImpact' =
                        js_mul rnd (js_div rnd (js_sub rnd newPrice oldPrice) oldPrice) (Fin 100)
                  in \<lparr>tokensOut = netTokensOut, priceImpact = js_abs priceImpact',
                      fee = feeAmount, tax = Some taxAmount\<rparr>)))"

text \<open>\<open>calculateSellUsdcOut(poolData, tokenAmount, config)\<close>.\<close>

definition calculateSellUsdcOut ::
  "(rat \<Rightarrow> jsnum) \<Rightarrow> pool option \<Rightarrow> jsnum option \<Rightarrow> config option \<Rightarrow> sell_quote" where
  "calculateSellUsdcOut rnd poolData tokenAmount cfg =
     (case (poolData, tokenAmount) of
        (None, _) \<Rightarrow> zero_sell_quote None
      | (_, None) \<Rightarrow> zero_sell_quote None
      | (Some p, Some tok) \<Rightarrow>
          if \<not> js_truthy tok \<or> js_le_zero tok then zero_sell_quote None
          else
            (let sellTax' = js_div rnd (sell_tax_number p) (Fin PERCENTAGE_BASIS_POINTS);
                 taxAmount = js_mul rnd tok sellTax';
                 amountAfterTax = js_sub rnd tok taxAmount;
                 totalStable = totalStable_number rnd p;
                 totalToken = totalToken_number rnd p;
                 k = js_mul rnd totalStable totalToken;
                 newToken = js_add rnd totalToken amountAfterTax;
                 newStable = js_div rnd k newToken;
                 stableOut = js_sub rnd totalStable newStable
             in case trading_fee_number cfg of
                  Inl e \<Rightarrow> zero_sell_quote (Some (Fin 0))
                | Inr tradingFee' \<Rightarrow>
                    (let feeAmount = js_mul rnd stableOut (js_div rnd tradingFee' (Fin PERCENTAGE_BASIS_POINTS));
                         netUsdcOut = js_sub rnd stableOut feeAmount;
                         oldPrice = js_div rnd totalStable totalToken;
                         newPrice = js_div rnd newStable newToken;
                         priceImpact' =
                           js_mul rnd (js_div rnd (js_sub rnd oldPrice newPrice) oldPrice) (Fin 100)
                     in \<lparr>usdcOut = netUsdcOut, sell_priceImpact = js_abs priceImpact',
                         sell_fee = feeAmount, sell_tax = Some taxAmount\<rparr>)))"

text \<open>
  \<open>calculatePoolProgress\<close>: \<open>BN\<close> arithmetic, then \<open>Math.min\<close> with 100; the
  \<open>catch\<close> returns 0.
\<close>

definition calculatePoolProgress_try :: "pool option \<Rightarrow> js_error + jsnum" where
  "calculatePoolProgress_try poolData =
     (case poolData of
        None \<Rightarrow> Inr (Fin 100)
      | Some p \<Rightarrow>
          if totalSellAmount p = 0 then Inr (Fin 100)
          else
            (let sold = totalSellAmount p - reserveProjectMint p
             in case bn_div (sold * 100) (totalSellAmount p) of
                  Inl e \<Rightarrow> Inl e
                | Inr progress \<Rightarrow>
                    (case bn_toNumber progress of
                       Inl e \<Rightarrow> Inl e
                     | Inr n \<Rightarrow> Inr (js_min n (Fin 100)))))"

definition calculatePoolProgress :: "pool option \<Rightarrow> jsnum" where
  "calculatePoolProgress poolData =
     (case calculatePoolProgress_try poolData of Inl e \<Rightarrow> Fin 0 | Inr v \<Rightarrow> v)"

text \<open>
  \<open>numberToBN(num, decimals)\<close>: the product is rounded as a number, floored, and
  handed to the \<open>BN\<close> constructor; when that throws, the \<open>catch\<close> returns \<open>BN(0)\<close>.
  There is no check of the sign or of finiteness.
\<close>

definition numberToBN_try :: "(rat \<Rightarrow> jsnum) \<Rightarrow> jsnum \<Rightarrow> nat \<Rightarrow> js_error + int" where
  "numberToBN_try rnd num decimals =
     (let multiplier = js_pow10 rnd decimals
      in bn_of_number (js_floor (js_mul rnd num multiplier)))"

definition numberToBN :: "(rat \<Rightarrow> jsnum) \<Rightarrow> jsnum \<Rightarrow> nat \<Rightarrow> int" where
  "numberToBN rnd num decimals =
     (case numberToBN_try rnd num decimals of Inl e \<Rightarrow> 0 | Inr bn \<Rightarrow> bn)"

section \<open>Error normalization (errors.js)\<close>


















section \<open>The formulas of the specification\<close>

text \<open>
  The pool's totals: in raw units, as \<open>calculateCurrentPrice\<close> adds them, and in whole
  units (6 decimals for the stable coin, 9 for the project token), as the quotes
  use them.
\<close>

definition total_stable_raw :: "pool \<Rightarrow> int" where
  "total_stable_raw p = reserveStableMint p + stableReserveVirtual p"

definition total_token_raw :: "pool \<Rightarrow> int" where
  "total_token_raw p = reserveProjectMint p + tokenReserveVirtual p"

definition total_stable_units :: "pool \<Rightarrow> rat" where
  "total_stable_units p =
     of_int (reserveStableMint p) / 10 ^ 6 + of_int (stableReserveVirtual p) / 10 ^ 6"

definition total_token_units :: "pool \<Rightarrow> rat" where
  "total_token_units p =
     of_int (reserveProjectMint p) / 10 ^ 9 + of_int (tokenReserveVirtual p) / 10 ^ 9"

definition buy_tax_bps :: "pool \<Rightarrow> rat" where
  "buy_tax_bps p = (case params p of None \<Rightarrow> 0 | Some ps \<Rightarrow> of_int (buyTax ps))"

definition sell_tax_bps :: "pool \<Rightarrow> rat" where
  "sell_tax_bps p = (case params p of None \<Rightarrow> 0 | Some ps \<Rightarrow> of_int (sellTax ps))"

text \<open>
  The buy quote in the specification's words, steps (a) to (d): the fee is taken from
  the input, the constant product is formed from the pre-trade totals, and the tax
  is taken from the output.
\<close>

definition spec_buyQuote_tokensOut :: "rat \<Rightarrow> rat \<Rightarrow> rat \<Rightarrow> rat \<Rightarrow> rat \<Rightarrow> rat" where
  "spec_buyQuote_tokensOut totalStable totalToken stableIn tradingFeeBps buyTaxBps =
     (let netIn = stableIn * (1 - tradingFeeBps / 10000);
          k = totalStable * totalToken;
          newStable = totalStable + netIn;
          newToken = k / newStable;
          rawTokensOut = totalToken - newToken
      in rawTokensOut * (1 - buyTaxBps / 10000))"


text \<open>
  The two building blocks of a quote, in the arithmetic of the code: an amount less
  some basis points of it, and the output of the constant-product swap with
  product \<open>k\<close> when \<open>amountIn\<close> is added to the reserve \<open>reserveIn\<close>.
\<close>

definition less_bps :: "(rat \<Rightarrow> jsnum) \<Rightarrow> jsnum \<Rightarrow> jsnum \<Rightarrow> jsnum" where
  "less_bps rnd amount bps =
     js_sub rnd amount (js_mul rnd amount (js_div rnd bps (Fin PERCENTAGE_BASIS_POINTS)))"

definition curve_out :: "(rat \<Rightarrow> jsnum) \<Rightarrow> jsnum \<Rightarrow> jsnum \<Rightarrow> jsnum \<Rightarrow> jsnum \<Rightarrow> jsnum" where
  "curve_out rnd k reserveIn reserveOut amountIn =
     js_sub rnd reserveOut (js_div rnd k (js_add rnd reserveIn amountIn))"

section \<open>Example data\<close>

text \<open>
  The pool of the specification's buy scenario: no real stable coin, 30000 USDC of
  virtual stable reserve (6 decimals), one million project tokens (9 decimals), no
  virtual project reserve, no taxes.
\<close>

definition scenario_pool :: pool where
  "scenario_pool =
     \<lparr>reserveStableMint = 0, stableReserveVirtual = 30000000000,
      reserveProjectMint = 1000000000000000, tokenReserveVirtual = 0,
      totalSellAmount = 1000000000000000, params = Some \<lparr>buyTax = 0, sellTax = 0\<rparr>\<rparr>"

text \<open>A pool whose project reserve exceeds the original sell amount.\<close>

definition over_reserved_pool :: pool where
  "over_reserved_pool = scenario_pool\<lparr>reserveProjectMint := 2000000000000000\<rparr>"

definition ready_wallet :: wallet where
  "ready_wallet =
     \<lparr>publicKey = ''payer'',
      signTransaction = Some (\<lambda>tx. Inr (tx\<lparr>signatures := [''payer'']\<rparr>))\<rparr>"

definition example_blockref :: blockref where
  "example_blockref = \<lparr>blockhash = ''bh'', lastValidBlockHeight = 100\<rparr>"

text \<open>
  A node on which the transaction landed and failed in the program: the confirmation
  resolves after 1.5 seconds with the protocol error, and the signature's status is
  \<open>confirmed\<close> with the same error.
\<close>

definition failed_tx_conn :: connection where
  "failed_tx_conn =
     \<lparr>getLatestBlockhash = Inr example_blockref,
      sendRawTransaction = (\<lambda>tx opts. Inr ''sig1''),
      confirmTransaction =
        (\<lambda>s c. Some \<lparr>reply = Resolved (Some ''InstructionError''), settles_at = 1500\<rparr>),
      getSignatureStatus =
        (\<lambda>s. StatusValue (Some \<lparr>confirmationStatus = Some Confirmed,
                                  status_err = Some ''InstructionError''\<rparr>))\<rparr>"

text \<open>
  A slow node: the confirmation resolves without error after 75 seconds, and the
  signature has no status record when it is looked up.
\<close>

definition slow_conn :: connection where
  "slow_conn =
     \<lparr>getLatestBlockhash = Inr example_blockref,
      sendRawTransaction = (\<lambda>tx opts. Inr ''sig1''),
      confirmTransaction = (\<lambda>s c. Some \<lparr>reply = Resolved None, settles_at = 75000\<rparr>),
      getSignatureStatus = (\<lambda>s. StatusValue None)\<rparr>"

definition slow_builder :: builder where
  "slow_builder =
     addInstruction (ProgramIx ''buy'')
       (addComputeBudget COMPUTE_UNITS_DEFAULT COMPUTE_UNITS_MICROLAMPORTS_PER_UNIT
          (new_builder slow_conn (Some ready_wallet)))"

text \<open>The scenario's configuration: a trading fee of 100 basis points.\<close>

definition scenario_config :: config where
  "scenario_config = \<lparr>tradingFee = Some 100\<rparr>"



text \<open>A pool with ten project tokens against the same 30000 USDC.\<close>

definition dear_pool :: pool where
  "dear_pool = scenario_pool\<lparr>reserveProjectMint := 10000000000\<rparr>"






section \<open>The confirmation pipeline\<close>

lemma sendTransaction_confirm_success_iff:
  "sendTransaction_confirm conn txSig br = Inr s \<longleftrightarrow>
     s = txSig \<and>
     (race_timeout (confirmTransaction conn (confirmation_strategy txSig br) ''confirmed'') TX_TIMEOUT
        = Resolved None
      \<or> (\<exists>st. getSignatureStatus conn txSig = StatusValue st \<and> landed st))"
  by (auto simp: sendTransaction_confirm_def Let_def
           split: confirmation.splits option.splits status_reply.splits sum.splits)

text \<open>
  C3. The claim: after the send, success is reported exactly when the confirmation
  completes without a protocol error, or it times out and the status lookup reports
  confirmed or finalized; a confirmation that carries a protocol error is a failure.
  The code does not keep the last part. The \<open>throw\<close> for a confirmation with an
  error stands inside the \<open>try\<close> whose \<open>catch\<close> performs the status lookup, and a
  transaction that landed and failed has the status \<open>confirmed\<close>: on
  \<open>failed_tx_conn\<close> the function returns the signature as if the transaction had
  succeeded.
\<close>

theorem sendTransaction_masks_protocol_error:
  "sendTransaction failed_tx_conn (Some ready_wallet) [ProgramIx ''buy''] [] = Inr ''sig1''"
  by (simp add: sendTransaction_def sendTransaction_confirm_def failed_tx_conn_def
        race_timeout_def TX_TIMEOUT_def landed_def ready_wallet_def example_blockref_def)

lemma build_ignores_status:
  "build (b\<lparr>b_connection := (b_connection b)\<lparr>getSignatureStatus := g\<rparr>\<rparr>) = build b"
  by (simp add: build_def Let_def cong: sum.case_cong option.case_cong)

lemma buildAndSend_ignores_status:
  "buildAndSend (b\<lparr>b_connection := (b_connection b)\<lparr>getSignatureStatus := g\<rparr>\<rparr>) = buildAndSend b"
  unfolding buildAndSend_def build_ignores_status
  by (simp cong: sum.case_cong option.case_cong prod.case_cong)

lemma slow_builder_build:
  "build slow_builder =
     Inr (\<lparr>recentBlockhash = ''bh'', feePayer = ''payer'',
           instructions = [SetComputeUnitLimit 800000, SetComputeUnitPrice 1, ProgramIx ''buy''],
           signatures = [''payer'']\<rparr>, example_blockref)"
  by (simp add: build_def slow_builder_def addInstruction_def addComputeBudget_def
        new_builder_def slow_conn_def ready_wallet_def example_blockref_def
        COMPUTE_UNITS_DEFAULT_def COMPUTE_UNITS_MICROLAMPORTS_PER_UNIT_def)

lemma slow_builder_connection: "b_connection slow_builder = slow_conn"
  by (simp add: slow_builder_def addInstruction_def addComputeBudget_def new_builder_def)

text \<open>
  C9, the claim as stated: \<open>buildAndSend\<close> behaves as the pipeline of
  \<open>sendTransaction\<close> (timeout race, status fallback). It does not: on the slow node
  \<open>buildAndSend\<close> waits for the late confirmation and returns the signature, while
  \<open>sendTransaction\<close> gives up after \<open>TX_TIMEOUT\<close>, finds no status record and fails.
\<close>

theorem buildAndSend_not_sendTransaction:
  "buildAndSend slow_builder = Some (Inr ''sig1'') \<and>
   sendTransaction slow_conn (Some ready_wallet) [ProgramIx ''buy''] []
     = Inl ''Transaction confirmation timeout''"
  by (simp add: buildAndSend_def slow_builder_build slow_builder_connection sendTransaction_def
        sendTransaction_confirm_def slow_conn_def race_timeout_def TX_TIMEOUT_def landed_def
        ready_wallet_def example_blockref_def confirmation_strategy_def)

text \<open>
  C9, amended. \<open>buildAndSend\<close> performs the same raw send as \<open>sendTransaction\<close>
  (\<open>raw_send_opts\<close>: preflight on, three retries) and awaits \<open>confirmTransaction\<close> on
  the same strategy and commitment, with no timer and no status lookup: once the
  transaction is built and sent with signature \<open>txSig\<close>, it never returns while the
  confirmation never settles, returns the signature when the confirmation resolves
  without error (however late), fails with the rejection when it rejects, and does
  not depend on \<open>getSignatureStatus\<close>. It agrees with the confirmation stage of
  \<open>sendTransaction\<close> when the confirmation resolves without error before
  \<open>TX_TIMEOUT\<close>.
\<close>

theorem buildAndSend_awaits_confirmation_only:
  assumes "build b = Inr (signedTx, br)"
    and "sendRawTransaction (b_connection b) signedTx raw_send_opts = Inr txSig"
  shows "(confirmTransaction (b_connection b) (confirmation_strategy txSig br) ''confirmed'' = None
            \<longrightarrow> buildAndSend b = None)
       \<and> (\<forall>t. confirmTransaction (b_connection b) (confirmation_strategy txSig br) ''confirmed''
                  = Some \<lparr>reply = Resolved None, settles_at = t\<rparr>
              \<longrightarrow> buildAndSend b = Some (Inr txSig)
                  \<and> (t < TX_TIMEOUT \<longrightarrow> sendTransaction_confirm (b_connection b) txSig br = Inr txSig))
       \<and> (\<forall>t e. confirmTransaction (b_connection b) (confirmation_strategy txSig br) ''confirmed''
                  = Some \<lparr>reply = Rejected e, settles_at = t\<rparr>
              \<longrightarrow> buildAndSend b = Some (Inl e))
       \<and> (\<forall>g. buildAndSend (b\<lparr>b_connection := (b_connection b)\<lparr>getSignatureStatus := g\<rparr>\<rparr>)
              = buildAndSend b)"
  using assms
  by (auto simp: buildAndSend_def buildAndSend_ignores_status [unfolded buildAndSend_def]
        sendTransaction_confirm_def race_timeout_def)

theorem buildAndSend_awaits_confirmation_only_witness:
  "build slow_builder =
     Inr (\<lparr>recentBlockhash = ''bh'', feePayer = ''payer'',
           instructions = [SetComputeUnitLimit 800000, SetComputeUnitPrice 1, ProgramIx ''buy''],
           signatures = [''payer'']\<rparr>, example_blockref)
   \<and> buildAndSend slow_builder = Some (Inr ''sig1'')
   \<and> buildAndSend (slow_builder\<lparr>b_connection :=
          (b_connection slow_builder)\<lparr>getSignatureStatus := (\<lambda>s. StatusThrows ''down'')\<rparr>\<rparr>)
       = buildAndSend slow_builder"
proof -
  have sent: "sendRawTransaction (b_connection slow_builder)
      \<lparr>recentBlockhash = ''bh'', feePayer = ''payer'',
       instructions = [SetComputeUnitLimit 800000, SetComputeUnitPrice 1, ProgramIx ''buy''],
       signatures = [''payer'']\<rparr> raw_send_opts = Inr ''sig1''"
    by (simp add: slow_builder_connection slow_conn_def)
  have conf: "confirmTransaction (b_connection slow_builder)
      (confirmation_strategy ''sig1'' example_blockref) ''confirmed''
        = Some \<lparr>reply = Resolved None, settles_at = 75000\<rparr>"
    by (simp add: slow_builder_connection slow_conn_def)
  from buildAndSend_awaits_confirmation_only [OF slow_builder_build sent] conf
  show ?thesis
    using slow_builder_build by blast
qed

section \<open>Pool progress\<close>

lemma calculatePoolProgress_zero_total:
  "totalSellAmount p = 0 \<Longrightarrow> calculatePoolProgress (Some p) = Fin 100"
  by (simp add: calculatePoolProgress_def calculatePoolProgress_try_def)

lemma calculatePoolProgress_le_100:
  "js_finite (calculatePoolProgress poolData) \<and> js_val (calculatePoolProgress poolData) \<le> 100"
  by (auto simp: calculatePoolProgress_def calculatePoolProgress_try_def bn_div_def bn_toNumber_def
        js_min_def js_val_def js_negative_def js_finite_def Let_def
        split: option.splits sum.splits if_splits)

text \<open>
  C5. The claim: 100 when \<open>totalSellAmount\<close> is zero, otherwise a value in
  \<open>[0, 100]\<close>, also when the project reserve exceeds the sell amount. The first part
  and the upper bound hold (\<open>calculatePoolProgress_zero_total\<close>,
  \<open>calculatePoolProgress_le_100\<close>). The lower bound does not: the function clamps
  with \<open>Math.min\<close> only, so a reserve of twice the sell amount gives \<open>-100\<close> where
  its own documentation promises a percentage between 0 and 100.
\<close>

theorem calculatePoolProgress_negative:
  "calculatePoolProgress (Some over_reserved_pool) = Fin (- 100)"
  by (simp add: calculatePoolProgress_def calculatePoolProgress_try_def over_reserved_pool_def
        scenario_pool_def bn_div_def bn_toNumber_def js_min_def js_val_def js_negative_def Let_def)

section \<open>Degenerate quote inputs\<close>

lemma degenerate_guard:
  "js_is_zero x \<or> js_negative x \<Longrightarrow> \<not> js_truthy x \<or> js_le_zero x"
  by (cases x) (auto simp: js_truthy_def js_le_zero_def js_is_zero_def js_negative_def)

text \<open>
  C8. For a missing pool, an undefined amount, a zero amount (of either sign) or a
  negative amount (negative infinity included), both quote functions return the
  quote whose output amount, price impact and fee are 0. This holds whatever the
  rounding of the arithmetic is; the functions are total, every exception of the
  source being caught inside them.
\<close>

theorem quotes_zero_on_degenerate_input:
  assumes "poolData = None \<or> amount = None
             \<or> (\<exists>x. amount = Some x \<and> (js_is_zero x \<or> js_negative x))"
  shows "calculateBuyTokensOut rnd poolData amount cfg
           = \<lparr>tokensOut = Fin 0, priceImpact = Fin 0, fee = Fin 0, tax = None\<rparr>
       \<and> calculateSellUsdcOut rnd poolData amount cfg
           = \<lparr>usdcOut = Fin 0, sell_priceImpact = Fin 0, sell_fee = Fin 0, sell_tax = None\<rparr>"
proof -
  consider "poolData = None" | p where "poolData = Some p" "amount = None"
    | p x where "poolData = Some p" "amount = Some x" "js_is_zero x \<or> js_negative x"
    using assms by (cases poolData) auto
  then show ?thesis
  proof cases
    case 1
    then show ?thesis
      by (simp add: calculateBuyTokensOut_def calculateSellUsdcOut_def zero_buy_quote_def
            zero_sell_quote_def)
  next
    case 2
    then show ?thesis
      by (simp add: calculateBuyTokensOut_def calculateSellUsdcOut_def zero_buy_quote_def
            zero_sell_quote_def)
  next
    case 3
    from 3(3) have "\<not> js_truthy x \<or> js_le_zero x" by (rule degenerate_guard)
    with 3(1,2) show ?thesis
      by (auto simp: calculateBuyTokensOut_def calculateSellUsdcOut_def zero_buy_quote_def
            zero_sell_quote_def)
  qed
qed

theorem quotes_zero_on_degenerate_input_witness:
  "calculateBuyTokensOut binary64 (Some scenario_pool) (Some (Fin (- 5))) None
     = \<lparr>tokensOut = Fin 0, priceImpact = Fin 0, fee = Fin 0, tax = None\<rparr>
   \<and> calculateSellUsdcOut binary64 (Some scenario_pool) (Some (Fin (- 5))) None
     = \<lparr>usdcOut = Fin 0, sell_priceImpact = Fin 0, sell_fee = Fin 0, sell_tax = None\<rparr>"
  using quotes_zero_on_degenerate_input [of "Some scenario_pool" "Some (Fin (- 5))" binary64 None]
  by (simp add: js_negative_def)

section \<open>Rounding to binary64\<close>

lemma pow2_powi: "pow2 e = 2 powi e"
  by (simp add: pow2_def power_int_def inverse_eq_divide power_one_over)

lemma pow2_pos [simp]: "0 < pow2 e"
  by (simp add: pow2_powi)

lemma pow2_nonzero [simp]: "pow2 e \<noteq> 0"
  using pow2_pos [of e] by linarith

lemma pow2_abs [simp]: "\<bar>pow2 e\<bar> = pow2 e"
  by (simp add: abs_of_pos)

lemma pow2_add: "pow2 (a + b) = pow2 a * pow2 b"
  by (simp add: pow2_powi power_int_add)

lemma pow2_less_iff [simp]: "pow2 a < pow2 b \<longleftrightarrow> a < b"
  by (metis pow2_powi power_int_strict_increasing linorder_not_less order_less_imp_le power_int_increasing one_less_numeral_iff semiring_norm(76) one_le_numeral)

lemma pow2_le_iff [simp]: "pow2 a \<le> pow2 b \<longleftrightarrow> a \<le> b"
  by (metis pow2_less_iff linorder_not_less)

lemma pow2_nat: "0 \<le> e \<Longrightarrow> pow2 e = of_int (2 ^ nat e)"
  by (simp add: pow2_def)

lemma flog2_bounds:
  assumes "0 < q"
  shows "pow2 (flog2 q) \<le> q \<and> q < pow2 (flog2 q + 1)"
proof (cases "1 \<le> q")
  case True
  define n where "n = \<lfloor>q\<rfloor>"
  have n1: "1 \<le> n" using True by (simp add: n_def)
  then have npos: "0 < n" by simp
  from bitlen_bounds [OF npos]
  have lo: "2 ^ nat (bitlen n - 1) \<le> n" and hi: "n < 2 ^ nat (bitlen n)" by auto
  have b1: "1 \<le> bitlen n" using npos by (simp add: bitlen_alt_def)
  have k: "flog2 q = bitlen n - 1" using True by (simp add: flog2_def n_def)
  have "pow2 (flog2 q) = of_int (2 ^ nat (bitlen n - 1))"
    using b1 by (simp add: k pow2_nat)
  also have "\<dots> \<le> of_int n" using lo by (simp only: of_int_le_iff)
  also have "\<dots> \<le> q" by (simp add: n_def)
  finally have A: "pow2 (flog2 q) \<le> q" .
  have "q < of_int (n + 1)" using floor_correct [of q] by (simp add: n_def)
  also have "\<dots> \<le> of_int (2 ^ nat (bitlen n))" using hi by (simp only: of_int_le_iff)
  also have "\<dots> = pow2 (flog2 q + 1)" using b1 by (simp add: k pow2_nat)
  finally have B: "q < pow2 (flog2 q + 1)" .
  from A B show ?thesis ..
next
  case False
  then have q1: "q < 1" by simp
  define r where "r = 1 / q"
  define c where "c = \<lceil>r\<rceil>"
  have r1: "1 < r" using assms q1 by (simp add: r_def)
  have c2: "2 \<le> c" using r1 by (simp add: c_def le_ceiling_iff)
  then have cpos: "0 < c - 1" by simp
  from bitlen_bounds [OF cpos]
  have lo: "2 ^ nat (bitlen (c - 1) - 1) \<le> c - 1" and hi: "c - 1 < 2 ^ nat (bitlen (c - 1))" by auto
  define b where "b = bitlen (c - 1)"
  have b1: "1 \<le> b" using cpos by (simp add: b_def bitlen_alt_def)
  have k: "flog2 q = - b" using False by (simp add: flog2_def c_def r_def b_def)
  have rc: "r \<le> of_int c" by (simp add: c_def)
  have cr: "of_int (c - 1) < r" using ceiling_correct [of r] by (simp add: c_def)
  have "c \<le> 2 ^ nat b" using hi by (simp add: b_def)
  then have "(of_int c :: rat) \<le> of_int (2 ^ nat b)" by (simp only: of_int_le_iff)
  then have "(of_int c :: rat) \<le> 2 ^ nat b" by simp
  with rc have rle: "r \<le> 2 ^ nat b" by linarith
  have "(of_int (2 ^ nat (b - 1)) :: rat) \<le> of_int (c - 1)"
    using lo unfolding b_def by (simp only: of_int_le_iff)
  then have "(2 ^ nat (b - 1) :: rat) \<le> of_int (c - 1)" by simp
  with cr have rgt: "2 ^ nat (b - 1) < r" by linarith
  have p1: "pow2 (- b) = 1 / 2 ^ nat b" using b1 by (simp add: pow2_def)
  have p2: "pow2 (- b + 1) = 1 / 2 ^ nat (b - 1)"
    using b1 by (cases "b = 1") (auto simp: pow2_def)
  have A: "pow2 (flog2 q) \<le> q"
    using rle assms unfolding k p1 r_def by (simp add: field_simps)
  have B: "q < pow2 (flog2 q + 1)"
    using rgt assms unfolding k p2 r_def by (simp add: field_simps)
  from A B show ?thesis ..
qed

lemma flog2_eqI:
  assumes "pow2 k \<le> q" "q < pow2 (k + 1)"
  shows "flog2 q = k"
proof -
  have q0: "0 < q" using assms(1) pow2_pos [of k] by linarith
  from flog2_bounds [OF q0] have lo: "pow2 (flog2 q) \<le> q" and hi: "q < pow2 (flog2 q + 1)" by auto
  from lo assms(2) have "pow2 (flog2 q) < pow2 (k + 1)" by linarith
  then have a: "flog2 q < k + 1" by simp
  from assms(1) hi have "pow2 k < pow2 (flog2 q + 1)" by linarith
  then have b: "k < flog2 q + 1" by simp
  from a b show ?thesis by linarith
qed

lemma round_half_even_near:
  assumes "\<bar>x - of_int m\<bar> < 1 / 2"
  shows "round_half_even x = m"
proof -
  from assms have a1: "x - of_int m < 1 / 2" and a2: "- (x - of_int m) < 1 / 2"
    by (simp_all only: abs_less_iff)
  have "of_int (m - 1) \<le> x" using a2 by (simp; linarith)
  then have l: "m - 1 \<le> \<lfloor>x\<rfloor>" by (simp only: le_floor_iff)
  have "x < of_int (m + 1)" using a1 by (simp; linarith)
  then have u: "\<lfloor>x\<rfloor> < m + 1" by (simp only: floor_less_iff)
  from l u have "\<lfloor>x\<rfloor> = m \<or> \<lfloor>x\<rfloor> = m - 1" by linarith
  then show ?thesis
  proof
    assume f: "\<lfloor>x\<rfloor> = m"
    with a1 show ?thesis by (simp add: round_half_even_def Let_def)
  next
    assume f: "\<lfloor>x\<rfloor> = m - 1"
    have "1 / 2 < x - of_int (m - 1)" using a2 by (simp; linarith)
    with f show ?thesis by (simp add: round_half_even_def Let_def)
  qed
qed

lemma round_half_even_of_int [simp]: "round_half_even (of_int m) = m"
  by (rule round_half_even_near) simp


lemma round_half_even_ge: "of_int i \<le> x \<Longrightarrow> i \<le> round_half_even x"
proof -
  assume "of_int i \<le> x"
  then have "i \<le> \<lfloor>x\<rfloor>" by (simp only: le_floor_iff)
  then show ?thesis by (simp add: round_half_even_def Let_def)
qed

lemma round_half_even_le: "x \<le> of_int i \<Longrightarrow> round_half_even x \<le> i"
proof -
  assume h: "x \<le> of_int i"
  then have fl: "\<lfloor>x\<rfloor> \<le> i" by (metis floor_mono floor_of_int)
  show ?thesis
  proof (cases "\<lfloor>x\<rfloor> = i")
    case True
    then have "x = of_int i" using h floor_correct [of x] by linarith
    then show ?thesis by simp
  next
    case False
    with fl have "\<lfloor>x\<rfloor> + 1 \<le> i" by linarith
    then show ?thesis by (simp add: round_half_even_def Let_def)
  qed
qed

lemma binary64_round_pos:
  assumes "pow2 k \<le> q" and "q < pow2 (k + 1)"
    and "e = max (k - 52) (- 1074)"
    and "\<bar>q / pow2 e - of_int m\<bar> < 1 / 2"
    and "0 < m" and "of_int m * pow2 e < pow2 1024"
  shows "binary64 q = Fin (of_int m * pow2 e)"
proof -
  have q0: "0 < q" using assms(1) pow2_pos [of k] by linarith
  have k: "flog2 \<bar>q\<bar> = k" using q0 assms(1,2) by (simp add: flog2_eqI)
  have m: "round_half_even (\<bar>q\<bar> / pow2 (max (k - 52) (- 1074))) = m"
    using q0 assms(3,4) by (simp add: round_half_even_near)
  show ?thesis
    using q0 assms(3,5,6) unfolding binary64_def k Let_def m by simp
qed

lemma binary64_exact:
  assumes "q = of_int m * pow2 e" and "m \<noteq> 0" and "\<bar>m\<bar> < 2 ^ 53"
    and "- 1074 \<le> e" and "e \<le> 971"
  shows "binary64 q = Fin q"
proof -
  define a where "a = \<bar>q\<bar>"
  have a: "a = of_int \<bar>m\<bar> * pow2 e" by (simp add: a_def assms(1) abs_mult)
  have a0: "0 < a" using assms(2) by (simp add: a)
  define k where "k = flog2 a"
  from flog2_bounds [OF a0] have lo: "pow2 k \<le> a" by (simp add: k_def)
  have "(of_int \<bar>m\<bar> :: rat) < of_int (2 ^ 53)" using assms(3) by (simp only: of_int_less_iff)
  then have mlt: "(of_int \<bar>m\<bar> :: rat) < pow2 53" by (simp add: pow2_def)
  then have "a < pow2 53 * pow2 e" unfolding a by (simp add: mult_strict_right_mono)
  then have alt: "a < pow2 (e + 53)" by (simp add: pow2_add mult.commute)
  with lo have "pow2 k < pow2 (e + 53)" by linarith
  then have ke: "k - 52 \<le> e" by simp
  define e' where "e' = max (k - 52) (- 1074)"
  have e'e: "e' \<le> e" using ke assms(4) by (simp add: e'_def)
  have "pow2 e = pow2 (e - e') * pow2 e'" by (simp add: pow2_add [symmetric])
  then have "a / pow2 e' = of_int \<bar>m\<bar> * pow2 (e - e')" by (simp add: a)
  also have "\<dots> = of_int (\<bar>m\<bar> * 2 ^ nat (e - e'))" using e'e by (simp add: pow2_nat)
  finally have x: "a / pow2 e' = of_int (\<bar>m\<bar> * 2 ^ nat (e - e'))" .
  have r: "of_int (\<bar>m\<bar> * 2 ^ nat (e - e')) * pow2 e' = a"
    using x by (metis nonzero_eq_divide_eq pow2_pos less_numeral_extra(3))
  have "pow2 (e + 53) \<le> pow2 1024" using assms(5) by simp
  with alt have ov: "a < pow2 1024" by linarith
  have m0: "\<bar>m\<bar> * 2 ^ nat (e - e') \<noteq> 0" using assms(2) by simp
  have q0: "q \<noteq> 0" using a0 by (simp add: a_def)
  show ?thesis
    unfolding binary64_def Let_def a_def [symmetric] k_def [symmetric] e'_def [symmetric]
      x round_half_even_of_int r
    using q0 ov m0 by (auto simp: a_def)
qed

lemma binary64_of_int:
  assumes "\<bar>n\<bar> < 2 ^ 53"
  shows "binary64 (of_int n) = Fin (of_int n)"
proof (cases "n = 0")
  case True
  then show ?thesis by (simp add: binary64_def)
next
  case False
  show ?thesis
    by (rule binary64_exact [where m = n and e = 0]) (use False assms in \<open>simp_all add: pow2_def\<close>)
qed

lemma binary64_pos_normal:
  assumes "pow2 (- 1022) \<le> q" and "q < pow2 1023"
  shows "\<exists>r. binary64 q = Fin r \<and> 0 < r"
proof -
  have q0: "0 < q" using assms(1) pow2_pos [of "- 1022"] by linarith
  define k where "k = flog2 q"
  from flog2_bounds [OF q0] have lo: "pow2 k \<le> q" and hi: "q < pow2 (k + 1)"
    by (simp_all add: k_def)
  from assms(1) hi have "pow2 (- 1022) < pow2 (k + 1)" by linarith
  then have k1: "- 1022 \<le> k" by simp
  from lo assms(2) have "pow2 k < pow2 1023" by linarith
  then have k2: "k \<le> 1022" by simp
  define e where "e = k - 52"
  have e: "max (flog2 q - 52) (- 1074) = e" using k1 by (simp add: e_def k_def)
  define m where "m = round_half_even (q / pow2 e)"
  have "pow2 k = pow2 52 * pow2 e" by (simp add: e_def pow2_add [symmetric])
  with lo have "pow2 52 \<le> q / pow2 e" by (simp add: pos_le_divide_eq)
  then have "of_int (2 ^ 52) \<le> q / pow2 e" by (simp add: pow2_def)
  then have mlo: "2 ^ 52 \<le> m" unfolding m_def by (rule round_half_even_ge)
  have "pow2 (k + 1) = pow2 53 * pow2 e" by (simp add: e_def pow2_add [symmetric] add.commute)
  with hi have "q / pow2 e < pow2 53" by (simp add: pos_divide_less_eq)
  then have "q / pow2 e \<le> of_int (2 ^ 53)" by (simp add: pow2_def)
  then have mhi: "m \<le> 2 ^ 53" unfolding m_def by (rule round_half_even_le)
  then have "(of_int m :: rat) \<le> of_int (2 ^ 53)" by (simp only: of_int_le_iff)
  then have "(of_int m :: rat) \<le> pow2 53" by (simp add: pow2_def)
  then have "of_int m * pow2 e \<le> pow2 53 * pow2 e" by (simp add: mult_right_mono)
  also have "\<dots> = pow2 (k + 1)" by (simp add: e_def pow2_add [symmetric] add.commute)
  also have "\<dots> < pow2 1024" using k2 by simp
  finally have ov: "of_int m * pow2 e < pow2 1024" .
  have m0: "0 < m" using mlo by simp
  have "binary64 q = Fin (of_int m * pow2 e)"
    using q0 ov m0 by (simp add: binary64_def Let_def e m_def [symmetric])
  moreover have "0 < of_int m * pow2 e" using m0 by simp
  ultimately show ?thesis by blast
qed


lemma binary64_roundI:
  assumes "pow2 k \<le> q" and "q < pow2 (k + 1)"
    and "e = max (k - 52) (- 1074)"
    and "\<bar>q / pow2 e - of_int m\<bar> < 1 / 2"
    and "0 < m" and "of_int m * pow2 e < pow2 1024"
    and "r = of_int m * pow2 e"
  shows "binary64 q = Fin r"
  using binary64_round_pos [OF assms(1-6)] assms(7) by simp

lemma binary64_zero [simp]: "binary64 0 = Fin 0"
  by (simp add: binary64_def)

lemma binary64_numeral:
  "numeral w < (2 :: int) ^ 53 \<Longrightarrow> binary64 (numeral w) = Fin (numeral w)"
  using binary64_of_int [of "numeral w"] by simp

lemma js_add_Fin: "a + b \<noteq> 0 \<Longrightarrow> js_add rnd (Fin a) (Fin b) = rnd (a + b)"
  by (auto simp: js_add_def js_finite_def js_is_zero_def js_val_def)

lemma js_sub_Fin: "a - b \<noteq> 0 \<Longrightarrow> js_sub rnd (Fin a) (Fin b) = rnd (a - b)"
  by (auto simp: js_sub_def js_neg_def js_add_def js_finite_def js_is_zero_def js_val_def)

lemma js_mul_Fin: "a \<noteq> 0 \<Longrightarrow> b \<noteq> 0 \<Longrightarrow> js_mul rnd (Fin a) (Fin b) = rnd (a * b)"
  by (simp add: js_mul_def js_finite_def js_is_zero_def js_val_def)

lemma js_div_Fin: "a \<noteq> 0 \<Longrightarrow> b \<noteq> 0 \<Longrightarrow> js_div rnd (Fin a) (Fin b) = rnd (a / b)"
  by (simp add: js_div_def js_finite_def js_is_zero_def js_val_def)

lemma js_add_roundI:
  assumes "pow2 k \<le> a + b" and "a + b < pow2 (k + 1)"
    and "e = max (k - 52) (- 1074)"
    and "\<bar>(a + b) / pow2 e - of_int m\<bar> < 1 / 2"
    and "0 < m" and "of_int m * pow2 e < pow2 1024"
    and "r = of_int m * pow2 e"
  shows "js_add binary64 (Fin a) (Fin b) = Fin r"
proof -
  have "a + b \<noteq> 0" using assms(1) pow2_pos [of k] by linarith
  then show ?thesis using binary64_roundI [OF assms] by (simp add: js_add_Fin)
qed

lemma js_sub_roundI:
  assumes "pow2 k \<le> a - b" and "a - b < pow2 (k + 1)"
    and "e = max (k - 52) (- 1074)"
    and "\<bar>(a - b) / pow2 e - of_int m\<bar> < 1 / 2"
    and "0 < m" and "of_int m * pow2 e < pow2 1024"
    and "r = of_int m * pow2 e"
  shows "js_sub binary64 (Fin a) (Fin b) = Fin r"
proof -
  have "a - b \<noteq> 0" using assms(1) pow2_pos [of k] by linarith
  then show ?thesis using binary64_roundI [OF assms] by (simp add: js_sub_Fin)
qed

lemma js_mul_roundI:
  assumes "pow2 k \<le> a * b" and "a * b < pow2 (k + 1)"
    and "e = max (k - 52) (- 1074)"
    and "\<bar>a * b / pow2 e - of_int m\<bar> < 1 / 2"
    and "0 < m" and "of_int m * pow2 e < pow2 1024"
    and "r = of_int m * pow2 e"
  shows "js_mul binary64 (Fin a) (Fin b) = Fin r"
proof -
  have "a * b \<noteq> 0" using assms(1) pow2_pos [of k] by linarith
  then have "a \<noteq> 0" and "b \<noteq> 0" by auto
  then show ?thesis using binary64_roundI [OF assms] by (simp add: js_mul_Fin)
qed

lemma js_div_roundI:
  assumes "pow2 k \<le> a / b" and "a / b < pow2 (k + 1)"
    and "e = max (k - 52) (- 1074)"
    and "\<bar>a / b / pow2 e - of_int m\<bar> < 1 / 2"
    and "0 < m" and "of_int m * pow2 e < pow2 1024"
    and "r = of_int m * pow2 e"
  shows "js_div binary64 (Fin a) (Fin b) = Fin r"
proof -
  have "a / b \<noteq> 0" using assms(1) pow2_pos [of k] by linarith
  then have "a \<noteq> 0" and "b \<noteq> 0" by auto
  then show ?thesis using binary64_roundI [OF assms] by (simp add: js_div_Fin)
qed

section \<open>The arithmetic read exactly\<close>

lemma js_is_Fin [simp]: "js_is (Fin q) r \<longleftrightarrow> q = r"
  by (simp add: js_is_def js_finite_def js_val_def)

lemma js_is_js_zero [simp]: "js_is (js_zero s) 0"
  by (simp add: js_is_def js_zero_def js_finite_def js_val_def)

lemma js_is_neg: "js_is x a \<Longrightarrow> js_is (js_neg x) (- a)"
  by (cases x) (auto simp: js_is_def js_neg_def js_finite_def js_val_def)

lemma js_is_add: "js_is x a \<Longrightarrow> js_is y b \<Longrightarrow> js_is (js_add Fin x y) (a + b)"
  by (cases x; cases y)
     (auto simp: js_is_def js_add_def js_finite_def js_val_def js_is_zero_def js_zero_def)

lemma js_is_sub: "js_is x a \<Longrightarrow> js_is y b \<Longrightarrow> js_is (js_sub Fin x y) (a - b)"
  using js_is_add [of x a "js_neg y" "- b"] by (simp add: js_sub_def js_is_neg)

lemma js_is_mul: "js_is x a \<Longrightarrow> js_is y b \<Longrightarrow> js_is (js_mul Fin x y) (a * b)"
  by (cases x; cases y)
     (auto simp: js_is_def js_mul_def js_finite_def js_val_def js_is_zero_def js_zero_def Let_def)

lemma js_is_div: "js_is x a \<Longrightarrow> js_is y b \<Longrightarrow> b \<noteq> 0 \<Longrightarrow> js_is (js_div Fin x y) (a / b)"
  by (cases x; cases y)
     (auto simp: js_is_def js_div_def js_finite_def js_val_def js_is_zero_def js_zero_def Let_def)

lemma js_is_totalStable: "js_is (totalStable_number Fin p) (total_stable_units p)"
  unfolding totalStable_number_def total_stable_units_def bn_to_Number_via_string_def js_pow10_def
    USDC_DECIMALS_def
  by (intro js_is_add js_is_div) simp_all

lemma js_is_totalToken: "js_is (totalToken_number Fin p) (total_token_units p)"
  unfolding totalToken_number_def total_token_units_def bn_to_Number_via_string_def js_pow10_def
    TOKEN_DECIMALS_def
  by (intro js_is_add js_is_div) simp_all

lemma js_is_buy_tax: "js_is (buy_tax_number p) (buy_tax_bps p)"
  by (simp add: buy_tax_number_def buy_tax_bps_def split: option.split)


lemma buy_exact:
  assumes x: "0 < x"
    and d: "total_stable_units p + x * (1 - f / 10000) \<noteq> 0"
    and fee: "trading_fee_number cfg = Inr (Fin f)"
  shows "js_is (tokensOut (calculateBuyTokensOut Fin (Some p) (Some (Fin x)) cfg))
           (spec_buyQuote_tokensOut (total_stable_units p) (total_token_units p) x f
              (buy_tax_bps p))"
proof -
  define S where "S = total_stable_units p"
  define T where "T = total_token_units p"
  define b where "b = buy_tax_bps p"
  have guard: "\<not> (\<not> js_truthy (Fin x) \<or> js_le_zero (Fin x))"
    using x by (simp add: js_truthy_def js_le_zero_def js_is_zero_def)
  define feeAmount where
    "feeAmount = js_mul Fin (Fin x) (js_div Fin (Fin f) (Fin PERCENTAGE_BASIS_POINTS))"
  define amountAfterFee where "amountAfterFee = js_sub Fin (Fin x) feeAmount"
  define k where "k = js_mul Fin (totalStable_number Fin p) (totalToken_number Fin p)"
  define newStable where "newStable = js_add Fin (totalStable_number Fin p) amountAfterFee"
  define newToken where "newToken = js_div Fin k newStable"
  define tokensOut' where "tokensOut' = js_sub Fin (totalToken_number Fin p) newToken"
  define buyTax' where "buyTax' = js_div Fin (buy_tax_number p) (Fin PERCENTAGE_BASIS_POINTS)"
  define taxAmount where "taxAmount = js_mul Fin tokensOut' buyTax'"
  define netTokensOut where "netTokensOut = js_sub Fin tokensOut' taxAmount"
  have 1: "js_is feeAmount (x * (f / 10000))"
    unfolding feeAmount_def PERCENTAGE_BASIS_POINTS_def by (intro js_is_mul js_is_div) simp_all
  have 2: "js_is amountAfterFee (x - x * (f / 10000))"
    unfolding amountAfterFee_def by (intro js_is_sub 1) simp
  have 3: "js_is k (S * T)"
    unfolding k_def S_def T_def by (intro js_is_mul js_is_totalStable js_is_totalToken)
  have 4: "js_is newStable (S + (x - x * (f / 10000)))"
    unfolding newStable_def S_def by (intro js_is_add js_is_totalStable 2)
  have nz: "S + (x - x * (f / 10000)) \<noteq> 0" using d by (simp add: S_def algebra_simps)
  have 5: "js_is newToken (S * T / (S + (x - x * (f / 10000))))"
    unfolding newToken_def using nz by (intro js_is_div 3 4)
  have 6: "js_is tokensOut' (T - S * T / (S + (x - x * (f / 10000))))"
    unfolding tokensOut'_def T_def by (intro js_is_sub js_is_totalToken 5 [unfolded T_def])
  have 7: "js_is buyTax' (b / 10000)"
    unfolding buyTax'_def b_def PERCENTAGE_BASIS_POINTS_def
    by (intro js_is_div js_is_buy_tax) simp_all
  have 8: "js_is netTokensOut
             ((T - S * T / (S + (x - x * (f / 10000))))
               - (T - S * T / (S + (x - x * (f / 10000)))) * (b / 10000))"
    unfolding netTokensOut_def taxAmount_def by (intro js_is_sub js_is_mul 6 7)
  have eq: "(T - S * T / (S + (x - x * (f / 10000))))
               - (T - S * T / (S + (x - x * (f / 10000)))) * (b / 10000)
          = spec_buyQuote_tokensOut S T x f b"
  proof -
    have n: "x - x * (f / 10000) = x * (1 - f / 10000)" by (simp add: algebra_simps)
    have d: "A - A * (b / 10000) = A * (1 - b / 10000)" for A :: rat by (simp add: algebra_simps)
    show ?thesis unfolding spec_buyQuote_tokensOut_def Let_def n d ..
  qed
  have "tokensOut (calculateBuyTokensOut Fin (Some p) (Some (Fin x)) cfg) = netTokensOut"
    using guard fee
    by (simp add: calculateBuyTokensOut_def Let_def netTokensOut_def taxAmount_def buyTax'_def
          tokensOut'_def newToken_def newStable_def k_def amountAfterFee_def feeAmount_def)
  with 8 eq show ?thesis by (simp add: S_def T_def b_def)
qed






lemma buy_composition:
  assumes "js_truthy usdc" and "\<not> js_le_zero usdc" and "trading_fee_number cfg = Inr f"
  shows "tokensOut (calculateBuyTokensOut rnd (Some p) (Some usdc) cfg)
           = less_bps rnd
               (curve_out rnd (js_mul rnd (totalStable_number rnd p) (totalToken_number rnd p))
                  (totalStable_number rnd p) (totalToken_number rnd p) (less_bps rnd usdc f))
               (buy_tax_number p)"
  using assms by (simp add: calculateBuyTokensOut_def Let_def less_bps_def curve_out_def)


lemma positive_Fin_guard: "0 < x \<Longrightarrow> js_truthy (Fin x) \<and> \<not> js_le_zero (Fin x)"
  by (simp add: js_truthy_def js_le_zero_def js_is_zero_def)

lemma trading_fee_number_cases:
  assumes "cfg = None \<and> f = DEFAULT_TRADING_FEE
             \<or> (\<exists>c. cfg = Some c \<and> tradingFee c = Some f \<and> 0 < f \<and> f \<le> 10000)"
  shows "trading_fee_number cfg = Inr (Fin (of_int f))"
  using assms
  by (auto simp: trading_fee_number_def bn_toNumber_def js_truthy_def js_is_zero_def)

lemma scenario_totals:
  "total_stable_units scenario_pool = 30000" "total_token_units scenario_pool = 1000000"
  "buy_tax_bps scenario_pool = 0" "sell_tax_bps scenario_pool = 0"
  by (simp_all add: total_stable_units_def total_token_units_def buy_tax_bps_def
        sell_tax_bps_def scenario_pool_def)

section \<open>Evaluation in double precision\<close>

text \<open>
  Each lemma is one arithmetic operation of a quote, evaluated in binary64: the
  rounded result is certified by its exponent and its 53-bit significand.
\<close>

lemma quote_step_1:
  "js_div binary64 (Fin 100) (Fin 10000)
     = Fin (5764607523034235 / 576460752303423488)"
  by (rule js_div_roundI [where k = "- 7" and e = "- 59" and m = 5764607523034235])
     (simp_all add: pow2_def)

lemma quote_step_2:
  "js_mul binary64 (Fin 1000) (Fin (5764607523034235 / 576460752303423488))
     = Fin 10"
  by (rule js_mul_roundI [where k = "3" and e = "- 49" and m = 5629499534213120])
     (simp_all add: pow2_def)

lemma quote_step_3:
  "js_sub binary64 (Fin 1000) (Fin 10)
     = Fin 990"
  by (rule js_sub_roundI [where k = "9" and e = "- 43" and m = 8708132091985920])
     (simp_all add: pow2_def)

lemma quote_step_4: "js_div binary64 (Fin 0) (Fin 1000000) = Fin 0"
  by (simp add: js_add_def js_sub_def js_mul_def js_div_def js_neg_def js_finite_def
        js_is_zero_def js_negative_def js_zero_def js_val_def Let_def)

lemma quote_step_5:
  "js_div binary64 (Fin 30000000000) (Fin 1000000)
     = Fin 30000"
  by (rule js_div_roundI [where k = "14" and e = "- 38" and m = 8246337208320000])
     (simp_all add: pow2_def)

lemma quote_step_6:
  "js_add binary64 (Fin 0) (Fin 30000)
     = Fin 30000"
  by (rule js_add_roundI [where k = "14" and e = "- 38" and m = 8246337208320000])
     (simp_all add: pow2_def)

lemma quote_step_7:
  "js_div binary64 (Fin 1000000000000000) (Fin 1000000000)
     = Fin 1000000"
  by (rule js_div_roundI [where k = "19" and e = "- 33" and m = 8589934592000000])
     (simp_all add: pow2_def)

lemma quote_step_8: "js_div binary64 (Fin 0) (Fin 1000000000) = Fin 0"
  by (simp add: js_add_def js_sub_def js_mul_def js_div_def js_neg_def js_finite_def
        js_is_zero_def js_negative_def js_zero_def js_val_def Let_def)

lemma quote_step_9:
  "js_add binary64 (Fin 1000000) (Fin 0)
     = Fin 1000000"
  by (rule js_add_roundI [where k = "19" and e = "- 33" and m = 8589934592000000])
     (simp_all add: pow2_def)

lemma quote_step_10:
  "js_mul binary64 (Fin 30000) (Fin 1000000)
     = Fin 30000000000"
  by (rule js_mul_roundI [where k = "34" and e = "- 18" and m = 7864320000000000])
     (simp_all add: pow2_def)

lemma quote_step_11:
  "js_add binary64 (Fin 30000) (Fin 990)
     = Fin 30990"
  by (rule js_add_roundI [where k = "14" and e = "- 38" and m = 8518466336194560])
     (simp_all add: pow2_def)

lemma quote_step_12:
  "js_div binary64 (Fin 30000000000) (Fin 30990)
     = Fin (8315522354307841 / 8589934592)"
  by (rule js_div_roundI [where k = "19" and e = "- 33" and m = 8315522354307841])
     (simp_all add: pow2_def)

lemma quote_step_13:
  "js_sub binary64 (Fin 1000000) (Fin (8315522354307841 / 8589934592))
     = Fin (274412237692159 / 8589934592)"
  by (rule js_sub_roundI [where k = "14" and e = "- 38" and m = 8781191606149088])
     (simp_all add: pow2_def)

lemma quote_step_14: "js_div binary64 (Fin 0) (Fin 10000) = Fin 0"
  by (simp add: js_add_def js_sub_def js_mul_def js_div_def js_neg_def js_finite_def
        js_is_zero_def js_negative_def js_zero_def js_val_def Let_def)

lemma quote_step_15: "js_mul binary64 (Fin (274412237692159 / 8589934592)) (Fin 0) = Fin 0"
  by (simp add: js_add_def js_sub_def js_mul_def js_div_def js_neg_def js_finite_def
        js_is_zero_def js_negative_def js_zero_def js_val_def Let_def)

lemma quote_step_16:
  "js_sub binary64 (Fin (274412237692159 / 8589934592)) (Fin 0)
     = Fin (274412237692159 / 8589934592)"
  by (rule js_sub_roundI [where k = "14" and e = "- 38" and m = 8781191606149088])
     (simp_all add: pow2_def)

lemma quote_step_17:
  "js_mul binary64 (Fin (5 / 2199023255552)) (Fin (5764607523034235 / 576460752303423488))
     = Fin (3602879701896397 / 158456325028528675187087900672)"
  by (rule js_mul_roundI [where k = "- 46" and e = "- 98" and m = 7205759403792794])
     (simp_all add: pow2_def)

lemma quote_step_18:
  "js_sub binary64 (Fin (5 / 2199023255552)) (Fin (3602879701896397 / 158456325028528675187087900672))
     = Fin (5573204538870989 / 2475880078570760549798248448)"
  by (rule js_sub_roundI [where k = "- 39" and e = "- 91" and m = 5573204538870989])
     (simp_all add: pow2_def)

lemma quote_step_19:
  "js_add binary64 (Fin 30000) (Fin (5573204538870989 / 2475880078570760549798248448))
     = Fin (8246337208320001 / 274877906944)"
  by (rule js_add_roundI [where k = "14" and e = "- 38" and m = 8246337208320001])
     (simp_all add: pow2_def)

lemma quote_step_20:
  "js_div binary64 (Fin 30000000000) (Fin (8246337208320001 / 274877906944))
     = Fin (8589934591999999 / 8589934592)"
  by (rule js_div_roundI [where k = "19" and e = "- 33" and m = 8589934591999999])
     (simp_all add: pow2_def)

lemma quote_step_21:
  "js_sub binary64 (Fin 1000000) (Fin (8589934591999999 / 8589934592))
     = Fin (1 / 8589934592)"
  by (rule js_sub_roundI [where k = "- 33" and e = "- 85" and m = 4503599627370496])
     (simp_all add: pow2_def)

lemma quote_step_22: "js_mul binary64 (Fin (1 / 8589934592)) (Fin 0) = Fin 0"
  by (simp add: js_add_def js_sub_def js_mul_def js_div_def js_neg_def js_finite_def
        js_is_zero_def js_negative_def js_zero_def js_val_def Let_def)

lemma quote_step_23:
  "js_sub binary64 (Fin (1 / 8589934592)) (Fin 0)
     = Fin (1 / 8589934592)"
  by (rule js_sub_roundI [where k = "- 33" and e = "- 85" and m = 4503599627370496])
     (simp_all add: pow2_def)

lemma quote_step_24:
  "js_add binary64 (Fin 1000000) (Fin (1 / 8589934592))
     = Fin (8589934592000001 / 8589934592)"
  by (rule js_add_roundI [where k = "19" and e = "- 33" and m = 8589934592000001])
     (simp_all add: pow2_def)

lemma quote_step_25:
  "js_div binary64 (Fin 30000000000) (Fin (8589934592000001 / 8589934592))
     = Fin (8246337208319999 / 274877906944)"
  by (rule js_div_roundI [where k = "14" and e = "- 38" and m = 8246337208319999])
     (simp_all add: pow2_def)

lemma quote_step_26:
  "js_sub binary64 (Fin 30000) (Fin (8246337208319999 / 274877906944))
     = Fin (1 / 274877906944)"
  by (rule js_sub_roundI [where k = "- 38" and e = "- 90" and m = 4503599627370496])
     (simp_all add: pow2_def)

lemma quote_step_27:
  "js_mul binary64 (Fin (1 / 274877906944)) (Fin (5764607523034235 / 576460752303423488))
     = Fin (5764607523034235 / 158456325028528675187087900672)"
  by (rule js_mul_roundI [where k = "- 45" and e = "- 97" and m = 5764607523034235])
     (simp_all add: pow2_def)

lemma quote_step_28:
  "js_sub binary64 (Fin (1 / 274877906944)) (Fin (5764607523034235 / 158456325028528675187087900672))
     = Fin (4458563631096791 / 1237940039285380274899124224)"
  by (rule js_sub_roundI [where k = "- 39" and e = "- 91" and m = 8917127262193582])
     (simp_all add: pow2_def)

lemma quote_step_29:
  "js_div binary64 (Fin 30000) (Fin 1000000)
     = Fin (1080863910568919 / 36028797018963968)"
  by (rule js_div_roundI [where k = "- 6" and e = "- 58" and m = 8646911284551352])
     (simp_all add: pow2_def)

lemma quote_step_30:
  "js_div binary64 (Fin 300) (Fin 10000)
     = Fin (1080863910568919 / 36028797018963968)"
  by (rule js_div_roundI [where k = "- 6" and e = "- 58" and m = 8646911284551352])
     (simp_all add: pow2_def)

lemma quote_step_31:
  "js_mul binary64 (Fin 100) (Fin (1080863910568919 / 36028797018963968))
     = Fin 3"
  by (rule js_mul_roundI [where k = "1" and e = "- 51" and m = 6755399441055744])
     (simp_all add: pow2_def)

lemma quote_step_32:
  "js_sub binary64 (Fin 100) (Fin 3)
     = Fin 97"
  by (rule js_sub_roundI [where k = "6" and e = "- 46" and m = 6825768185233408])
     (simp_all add: pow2_def)

lemma quote_step_33:
  "js_add binary64 (Fin 1000000) (Fin 97)
     = Fin 1000097"
  by (rule js_add_roundI [where k = "19" and e = "- 33" and m = 8590767815655424])
     (simp_all add: pow2_def)

lemma quote_step_34:
  "js_div binary64 (Fin 30000000000) (Fin 1000097)
     = Fin (4122768695596527 / 137438953472)"
  by (rule js_div_roundI [where k = "14" and e = "- 38" and m = 8245537391193054])
     (simp_all add: pow2_def)

lemma quote_step_35:
  "js_sub binary64 (Fin 30000) (Fin (4122768695596527 / 137438953472))
     = Fin (399908563473 / 137438953472)"
  by (rule js_sub_roundI [where k = "1" and e = "- 51" and m = 6552101903941632])
     (simp_all add: pow2_def)

lemma quote_step_36:
  "js_div binary64 (Fin 250) (Fin 10000)
     = Fin (3602879701896397 / 144115188075855872)"
  by (rule js_div_roundI [where k = "- 6" and e = "- 58" and m = 7205759403792794])
     (simp_all add: pow2_def)

lemma quote_step_37:
  "js_mul binary64 (Fin (399908563473 / 137438953472)) (Fin (3602879701896397 / 144115188075855872))
     = Fin (2620840761576653 / 36028797018963968)"
  by (rule js_mul_roundI [where k = "- 4" and e = "- 56" and m = 5241681523153306])
     (simp_all add: pow2_def)

lemma quote_step_38:
  "js_sub binary64 (Fin (399908563473 / 137438953472)) (Fin (2620840761576653 / 36028797018963968))
     = Fin (6388299356343091 / 2251799813685248)"
  by (rule js_sub_roundI [where k = "1" and e = "- 51" and m = 6388299356343091])
     (simp_all add: pow2_def)

lemmas quote_steps =
  quote_step_1 quote_step_2 quote_step_3 quote_step_4 quote_step_5 quote_step_6
  quote_step_7 quote_step_8 quote_step_9 quote_step_10 quote_step_11 quote_step_12
  quote_step_13 quote_step_14 quote_step_15 quote_step_16 quote_step_17 quote_step_18
  quote_step_19 quote_step_20 quote_step_21 quote_step_22 quote_step_23 quote_step_24
  quote_step_25 quote_step_26 quote_step_27 quote_step_28 quote_step_29 quote_step_30
  quote_step_31 quote_step_32 quote_step_33 quote_step_34 quote_step_35 quote_step_36
  quote_step_37 quote_step_38

lemma scenario_buy_tokensOut:
  "tokensOut (calculateBuyTokensOut binary64 (Some scenario_pool) (Some (Fin 1000))
                (Some scenario_config))
     = Fin (274412237692159 / 8589934592)"
  by (simp add: calculateBuyTokensOut_def calculateSellUsdcOut_def Let_def js_truthy_def
        js_is_zero_def js_le_zero_def trading_fee_number_def bn_toNumber_def
        DEFAULT_TRADING_FEE_def PERCENTAGE_BASIS_POINTS_def totalStable_number_def
        totalToken_number_def bn_to_Number_via_string_def js_pow10_def USDC_DECIMALS_def
        TOKEN_DECIMALS_def scenario_pool_def scenario_config_def buy_tax_number_def
        sell_tax_number_def binary64_numeral quote_steps)

lemma zero_fee_config_buy_fee:
  "fee (calculateBuyTokensOut binary64 (Some scenario_pool) (Some (Fin 1000))
          (Some \<lparr>tradingFee = Some 0\<rparr>))
     = Fin 10"
  by (simp add: calculateBuyTokensOut_def calculateSellUsdcOut_def Let_def js_truthy_def
        js_is_zero_def js_le_zero_def trading_fee_number_def bn_toNumber_def
        DEFAULT_TRADING_FEE_def PERCENTAGE_BASIS_POINTS_def totalStable_number_def
        totalToken_number_def bn_to_Number_via_string_def js_pow10_def USDC_DECIMALS_def
        TOKEN_DECIMALS_def scenario_pool_def scenario_config_def buy_tax_number_def
        sell_tax_number_def binary64_numeral quote_steps)



section \<open>Error normalization\<close>

















section \<open>Current price\<close>

lemma binary64_milli_pos:
  assumes "1 \<le> n" and "n < 2 ^ 53"
  shows "\<exists>r. binary64 (of_int n / 1000) = Fin r \<and> 0 < r"
proof (rule binary64_pos_normal)
  have "pow2 (- 1022) \<le> pow2 (- 10)" by simp
  also have "\<dots> \<le> 1 / 1000" by (simp add: pow2_def)
  also have "\<dots> \<le> of_int n / 1000" using assms(1) by (simp add: divide_right_mono)
  finally show "pow2 (- 1022) \<le> of_int n / 1000" .
  have "(of_int n :: rat) < of_int (2 ^ 53)" using assms(2) by (simp only: of_int_less_iff)
  then have "(of_int n :: rat) / 1000 < pow2 53" using assms(1) by (simp add: pow2_def)
  also have "\<dots> < pow2 1023" by simp
  finally show "of_int n / 1000 < pow2 1023" .
qed

lemma bn_div_nonneg: "0 \<le> a \<Longrightarrow> 0 < b \<Longrightarrow> bn_div a b = Inr (a div b)"
  by (cases "a = 0") (simp_all add: bn_div_def)

text \<open>
  For a pool with non-negative reserves (they are unsigned on chain) the function
  returns a finite number that is at least 0, and it never throws: the \<open>catch\<close>
  is part of the model. The result is 0 when the token-side total is 0, and also
  when the integer quotient \<open>totalStable * 1000 div totalToken\<close> is 0 or does not
  fit 53 bits.
\<close>

lemma calculateCurrentPrice_nonneg:
  assumes "0 \<le> reserveStableMint p" and "0 \<le> stableReserveVirtual p"
    and "0 \<le> reserveProjectMint p" and "0 \<le> tokenReserveVirtual p"
  shows "\<exists>r. calculateCurrentPrice binary64 (Some p) = Fin r \<and> 0 \<le> r \<and>
           (r = 0 \<longleftrightarrow> total_token_raw p = 0
                    \<or> total_stable_raw p * 1000 div total_token_raw p = 0
                    \<or> 2 ^ 53 \<le> total_stable_raw p * 1000 div total_token_raw p)"
proof -
  define ts where "ts = total_stable_raw p"
  define tt where "tt = total_token_raw p"
  define n where "n = ts * 1000 div tt"
  have ts0: "0 \<le> ts" and tt0: "0 \<le> tt"
    using assms by (simp_all add: ts_def tt_def total_stable_raw_def total_token_raw_def)
  have n0: "0 \<le> n" using ts0 tt0 by (simp add: n_def pos_imp_zdiv_nonneg_iff div_int_pos_iff)
  consider "tt = 0" | "tt \<noteq> 0" "n = 0" | "tt \<noteq> 0" "2 ^ 53 \<le> n"
    | "tt \<noteq> 0" "1 \<le> n" "n < 2 ^ 53"
    using n0 by linarith
  then show ?thesis
  proof cases
    case 1
    then have "calculateCurrentPrice binary64 (Some p) = Fin 0"
      by (simp add: calculateCurrentPrice_def calculateCurrentPrice_try_def tt_def
            total_token_raw_def)
    with 1 show ?thesis by (simp add: tt_def)
  next
    case 2
    then have "bn_div (ts * 1000) tt = Inr 0"
      using ts0 tt0 bn_div_nonneg [of "ts * 1000" tt] by (simp add: n_def)
    with 2 have "calculateCurrentPrice binary64 (Some p) = Fin 0"
      by (simp add: calculateCurrentPrice_def calculateCurrentPrice_try_def Let_def bn_toNumber_def
            js_div_def js_finite_def js_is_zero_def js_zero_def js_negative_def
            ts_def [symmetric, unfolded total_stable_raw_def]
            tt_def [symmetric, unfolded total_token_raw_def])
    with 2 show ?thesis by (simp add: n_def ts_def tt_def)
  next
    case 3
    then have "bn_div (ts * 1000) tt = Inr n"
      using ts0 tt0 bn_div_nonneg [of "ts * 1000" tt] by (simp add: n_def)
    with 3 have "calculateCurrentPrice binary64 (Some p) = Fin 0"
      by (simp add: calculateCurrentPrice_def calculateCurrentPrice_try_def Let_def bn_toNumber_def
            ts_def [symmetric, unfolded total_stable_raw_def]
            tt_def [symmetric, unfolded total_token_raw_def])
    with 3 show ?thesis by (simp add: n_def ts_def tt_def)
  next
    case 4
    then have d: "bn_div (ts * 1000) tt = Inr n"
      using ts0 tt0 bn_div_nonneg [of "ts * 1000" tt] by (simp add: n_def)
    from binary64_milli_pos [OF 4(2,3)]
    obtain r where r: "binary64 (of_int n / 1000) = Fin r" "0 < r"
      by blast
    have "js_div binary64 (Fin (of_int n)) (Fin 1000) = Fin r"
      using 4(2) r(1) by (simp add: js_div_Fin)
    with 4 d have "calculateCurrentPrice binary64 (Some p) = Fin r"
      by (simp add: calculateCurrentPrice_def calculateCurrentPrice_try_def Let_def bn_toNumber_def
            ts_def [symmetric, unfolded total_stable_raw_def]
            tt_def [symmetric, unfolded total_token_raw_def])
    with 4 r(2) show ?thesis by (simp add: n_def ts_def tt_def)
  qed
qed

lemma calculateCurrentPrice_dear_pool:
  "calculateCurrentPrice binary64 (Some dear_pool) = Fin 3"
  by (simp add: calculateCurrentPrice_def calculateCurrentPrice_try_def Let_def bn_toNumber_def
        bn_div_def scenario_pool_def dear_pool_def js_div_Fin binary64_numeral)

lemma scenario_old_price:
  "js_div binary64 (totalStable_number binary64 scenario_pool)
     (totalToken_number binary64 scenario_pool)
     = Fin (1080863910568919 / 36028797018963968)"
  by (simp add: totalStable_number_def totalToken_number_def bn_to_Number_via_string_def
        js_pow10_def USDC_DECIMALS_def TOKEN_DECIMALS_def scenario_pool_def binary64_numeral
        quote_steps)

text \<open>
  C6. The price is claimed to be 0 exactly when the token-side total is 0. On the
  scenario pool the token-side total is \<open>10\<^sup>1\<^sup>5\<close> raw units (a million tokens) and a
  token is priced at 30000 / 1000000 = 0.03 USDC, yet \<open>calculateCurrentPrice\<close>
  returns 0. The function divides the raw totals as integers,
  \<open>totalStable * 1000 div totalToken\<close>, where the factor 1000 stands for the three
  decimals between the two mints, and then divides the quotient by 1000 again: the
  result is the whole part of the price in whole units, divided by 1000. Every pool
  priced below 1 USDC a token therefore shows 0, and \<open>dear_pool\<close>, priced at 3000
  USDC a token, shows 3. The function is documented to return the current price in
  USD and comments the factor as the adjustment for the decimals; the buy quote
  computes the same price at line 77 from the totals in whole units, and finds
  \<open>1080863910568919 / 2\<^sup>5\<^sup>5\<close>, the number nearest to 0.03.
\<close>

theorem calculateCurrentPrice_zero_for_scenario_pool:
  "calculateCurrentPrice binary64 (Some scenario_pool) = Fin 0
   \<and> total_token_raw scenario_pool = 1000000000000000
   \<and> total_stable_units scenario_pool / total_token_units scenario_pool = 3 / 100
   \<and> js_div binary64 (totalStable_number binary64 scenario_pool)
         (totalToken_number binary64 scenario_pool)
       = Fin (1080863910568919 / 36028797018963968)
   \<and> calculateCurrentPrice binary64 (Some dear_pool) = Fin 3
   \<and> total_stable_units dear_pool / total_token_units dear_pool = 3000"
proof -
  have "calculateCurrentPrice binary64 (Some scenario_pool) = Fin 0"
    by (simp add: calculateCurrentPrice_def calculateCurrentPrice_try_def Let_def bn_toNumber_def
          bn_div_def scenario_pool_def js_div_def js_finite_def js_is_zero_def js_zero_def
          js_negative_def)
  moreover have "total_token_raw scenario_pool = 1000000000000000"
    by (simp add: total_token_raw_def scenario_pool_def)
  moreover have "total_stable_units dear_pool / total_token_units dear_pool = 3000"
    by (simp add: total_stable_units_def total_token_units_def dear_pool_def scenario_pool_def)
  ultimately show ?thesis
    by (simp add: scenario_totals scenario_old_price calculateCurrentPrice_dear_pool)
qed

section \<open>Conversion to raw amounts\<close>

lemma five_pow_bound: "d \<le> 22 \<Longrightarrow> (5::int) ^ d < 2 ^ 53"
proof -
  assume "d \<le> 22"
  then have "(5::int) ^ d \<le> 5 ^ 22" by (intro power_increasing) simp_all
  also have "\<dots> < 2 ^ 53" by simp
  finally show ?thesis .
qed

lemma binary64_pow10:
  assumes "d \<le> 22"
  shows "binary64 (10 ^ d) = Fin (10 ^ d)"
proof (rule binary64_exact [where m = "5 ^ d" and e = "int d"])
  have "(10::rat) ^ d = (5 * 2) ^ d" by simp
  also have "\<dots> = 5 ^ d * 2 ^ d" by (simp only: power_mult_distrib)
  finally show "(10::rat) ^ d = of_int (5 ^ d) * pow2 (int d)" by (simp add: pow2_def)
  show "(5::int) ^ d \<noteq> 0" by simp
  show "\<bar>(5::int) ^ d\<bar> < 2 ^ 53" using five_pow_bound [OF assms] by simp
  show "- 1074 \<le> int d" by simp
  show "int d \<le> 971" using assms by simp
qed

lemma bn_of_number_int: "\<bar>n\<bar> < 2 ^ 53 \<Longrightarrow> bn_of_number (Fin (of_int n)) = Inr n"
proof -
  assume "\<bar>n\<bar> < 2 ^ 53"
  then have "\<bar>(of_int n :: rat)\<bar> < of_int (2 ^ 53)"
    by (simp only: of_int_abs [symmetric] of_int_less_iff)
  then show ?thesis by (simp add: bn_of_number_def)
qed

lemma numberToBN_try_finite:
  assumes "d \<le> 22" and "q \<noteq> 0" and "binary64 (q * 10 ^ d) = Fin p"
    and "\<bar>\<lfloor>p\<rfloor>\<bar> < 2 ^ 53"
  shows "numberToBN_try binary64 (Fin q) d = Inr \<lfloor>p\<rfloor>"
proof -
  have "js_mul binary64 (Fin q) (Fin (10 ^ d)) = Fin p"
    using assms(2,3) by (simp add: js_mul_Fin)
  then show ?thesis
    using assms(1,4)
    by (simp add: numberToBN_try_def js_pow10_def binary64_pow10 js_floor_def bn_of_number_int)
qed

lemma numberToBN_try_too_large:
  assumes "d \<le> 22" and "q \<noteq> 0" and "binary64 (q * 10 ^ d) = Fin p"
    and "2 ^ 53 \<le> \<bar>\<lfloor>p\<rfloor>\<bar>"
  shows "numberToBN_try binary64 (Fin q) d = Inl BNAssertion"
proof -
  have "js_mul binary64 (Fin q) (Fin (10 ^ d)) = Fin p"
    using assms(2,3) by (simp add: js_mul_Fin)
  moreover have "\<not> \<bar>(of_int \<lfloor>p\<rfloor> :: rat)\<bar> < 2 ^ 53"
  proof -
    have "(of_int (2 ^ 53) :: rat) \<le> of_int \<bar>\<lfloor>p\<rfloor>\<bar>"
      using assms(4) by (simp only: of_int_le_iff)
    then show ?thesis by simp
  qed
  ultimately show ?thesis
    using assms(1)
    by (simp add: numberToBN_try_def js_pow10_def binary64_pow10 js_floor_def bn_of_number_def)
qed

lemma numberToBN_try_NaN: "numberToBN_try rnd NaN d = Inr 0"
  by (simp add: numberToBN_try_def js_mul_def js_floor_def bn_of_number_def Let_def)

lemma numberToBN_try_infinite:
  assumes "d \<le> 22" and "num = PosInf \<or> num = NegInf"
  shows "numberToBN_try binary64 num d = Inl BNAssertion"
  using assms
  by (auto simp: numberToBN_try_def js_pow10_def binary64_pow10 js_mul_def js_finite_def
        js_is_zero_def js_inf_def js_floor_def bn_of_number_def Let_def)

lemma numberToBN_try_zero:
  assumes "d \<le> 22" and "num = Fin 0 \<or> num = NegZero"
  shows "numberToBN_try binary64 num d = Inr 0"
  using assms
  by (auto simp: numberToBN_try_def js_pow10_def binary64_pow10 js_mul_def js_finite_def
        js_is_zero_def js_zero_def js_negative_def js_floor_def bn_of_number_def Let_def)

lemma binary64_minus_1500000: "binary64 (- (3 / 2) * 10 ^ 6) = Fin (- 1500000)"
  using binary64_of_int [of "- 1500000"] by simp

lemma binary64_minus_twelve_and_a_half: "binary64 (- (1 / 8) * 10 ^ 2) = Fin (- (25 / 2))"
  using binary64_exact [where q = "- (25 / 2)" and m = "- 25" and e = "- 1"]
  by (simp add: pow2_def)

text \<open>
  C10, the claim as stated: \<open>numberToBN\<close> fails with InvalidAmount on a negative or
  non-finite amount. It fails on neither. For \<open>-1.5\<close> with 6 decimals the body of
  the \<open>try\<close> returns the \<open>BN\<close> \<open>-1500000\<close>; for NaN the constructor reads
  \<open>NaN || 0\<close> and the body returns \<open>BN(0)\<close>; for \<open>Infinity\<close> the constructor's
  assertion throws, the \<open>catch\<close> takes it and the function returns \<open>BN(0)\<close>.
\<close>

theorem numberToBN_accepts_negative:
  "numberToBN_try binary64 (Fin (- (3 / 2))) 6 = Inr (- 1500000)
   \<and> numberToBN_try binary64 NaN 6 = Inr 0
   \<and> numberToBN binary64 PosInf 6 = 0"
proof -
  have "numberToBN_try binary64 (Fin (- (3 / 2))) 6 = Inr \<lfloor>- 1500000 :: rat\<rfloor>"
    using binary64_minus_1500000 by (intro numberToBN_try_finite) simp_all
  moreover have "numberToBN binary64 PosInf 6 = 0"
    by (simp add: numberToBN_def numberToBN_try_infinite)
  ultimately show ?thesis by (simp add: numberToBN_try_NaN)
qed

text \<open>
  C10, amended. For every decimals count up to 22 (where \<open>Math.pow(10, decimals)\<close>
  is exact), \<open>numberToBN\<close> multiplies the amount by \<open>10\<^sup>d\<close> in double precision and
  returns the floor of that product, for negative amounts as for positive ones,
  whenever the floor is below \<open>2\<^sup>5\<^sup>3\<close> in magnitude. It never fails and checks
  neither the sign nor finiteness: a zero and NaN give \<open>BN(0)\<close> from the body of
  the \<open>try\<close>; for a floor of magnitude \<open>2\<^sup>5\<^sup>3\<close> or more and for the infinities the
  constructor throws and the \<open>catch\<close> returns \<open>BN(0)\<close>.
\<close>

theorem numberToBN_floors_and_never_fails:
  assumes "d \<le> 22"
  shows "(\<forall>q p. q \<noteq> 0 \<and> binary64 (q * 10 ^ d) = Fin p \<and> \<bar>\<lfloor>p\<rfloor>\<bar> < 2 ^ 53
            \<longrightarrow> numberToBN_try binary64 (Fin q) d = Inr \<lfloor>p\<rfloor>
                \<and> numberToBN binary64 (Fin q) d = \<lfloor>p\<rfloor>)
       \<and> (\<forall>q p. q \<noteq> 0 \<and> binary64 (q * 10 ^ d) = Fin p \<and> 2 ^ 53 \<le> \<bar>\<lfloor>p\<rfloor>\<bar>
            \<longrightarrow> numberToBN_try binary64 (Fin q) d = Inl BNAssertion
                \<and> numberToBN binary64 (Fin q) d = 0)
       \<and> numberToBN_try binary64 (Fin 0) d = Inr 0
       \<and> numberToBN_try binary64 NegZero d = Inr 0
       \<and> numberToBN_try binary64 NaN d = Inr 0
       \<and> numberToBN binary64 NaN d = 0
       \<and> numberToBN_try binary64 PosInf d = Inl BNAssertion
       \<and> numberToBN binary64 PosInf d = 0
       \<and> numberToBN_try binary64 NegInf d = Inl BNAssertion
       \<and> numberToBN binary64 NegInf d = 0"
  using assms
  by (simp add: numberToBN_def numberToBN_try_finite numberToBN_try_too_large
        numberToBN_try_NaN numberToBN_try_infinite numberToBN_try_zero)

theorem numberToBN_floors_and_never_fails_witness:
  "numberToBN binary64 (Fin (- (1 / 8))) 2 = - 13
   \<and> numberToBN_try binary64 NaN 2 = Inr 0
   \<and> numberToBN binary64 PosInf 2 = 0"
proof -
  have d: "(2::nat) \<le> 22" by simp
  have f: "\<lfloor>- (25 / 2) :: rat\<rfloor> = - 13" by (rule floor_unique) simp_all
  have h: "(- (1 / 8) :: rat) \<noteq> 0 \<and> binary64 (- (1 / 8) * 10 ^ 2) = Fin (- (25 / 2))
             \<and> \<bar>\<lfloor>- (25 / 2) :: rat\<rfloor>\<bar> < 2 ^ 53"
    using binary64_minus_twelve_and_a_half by (simp only: f) simp
  from numberToBN_floors_and_never_fails [OF d] h f show ?thesis by metis
qed

section \<open>Buy quote\<close>

text \<open>
  C1, the claim as stated ends: on the specification's worked example the function
  returns the quoted value, about 32591.2 tokens. It returns
  \<open>274412237692159 / 2\<^sup>3\<^sup>3\<close>, which is 31945.788964182022, more than 645 tokens
  away. (The formula itself gives \<open>10\<^sup>6 * 990 / 30990\<close>; the quoted figure does not
  follow from it.) The claim also reads the fee as the configured basis points,
  while a configured fee of 0 is replaced by the default 100: the quote then
  charges 10 USDC on 1000.
\<close>

theorem scenario_buy_not_the_quoted_value:
  "\<not> \<bar>js_val (tokensOut (calculateBuyTokensOut binary64 (Some scenario_pool) (Some (Fin 1000))
                            (Some scenario_config))) - 325912 / 10\<bar> \<le> 645
   \<and> fee (calculateBuyTokensOut binary64 (Some scenario_pool) (Some (Fin 1000))
            (Some \<lparr>tradingFee = Some 0\<rparr>)) = Fin 10"
  by (simp add: scenario_buy_tokensOut zero_fee_config_buy_fee js_val_def)

text \<open>
  C1, amended. For every pool with a positive total stable reserve, every \<open>stableIn > 0\<close> and
  a trading fee that is the configured one, between 1 and 10000 basis points, or
  the default 100 when no configuration is given, \<open>calculateBuyTokensOut\<close> computes
  the steps of the specification in their order (fee off the input, constant
  product of the pre-trade totals, swap, tax off the output): in whatever
  arithmetic, its \<open>tokensOut\<close> is the swap output of the input less the fee, less
  the buy tax, and read in exact arithmetic it is the value of
  \<open>spec_buyQuote_tokensOut\<close>. The code evaluates these steps in double precision,
  and on the worked example it returns
  31945.788964182022 tokens (\<open>netIn = 990\<close>, \<open>newStable = 30990\<close>,
  \<open>newToken = 8315522354307841 / 2\<^sup>3\<^sup>3\<close>, about 968054.21).
\<close>

theorem calculateBuyTokensOut_steps:
  assumes "0 < x" and "0 < total_stable_units p"
    and "cfg = None \<and> f = DEFAULT_TRADING_FEE
           \<or> (\<exists>c. cfg = Some c \<and> tradingFee c = Some f \<and> 0 < f \<and> f \<le> 10000)"
  shows "js_is (tokensOut (calculateBuyTokensOut Fin (Some p) (Some (Fin x)) cfg))
           (spec_buyQuote_tokensOut (total_stable_units p) (total_token_units p) x
              (of_int f) (buy_tax_bps p))
       \<and> (\<forall>rnd. tokensOut (calculateBuyTokensOut rnd (Some p) (Some (Fin x)) cfg)
             = less_bps rnd
                 (curve_out rnd
                    (js_mul rnd (totalStable_number rnd p) (totalToken_number rnd p))
                    (totalStable_number rnd p) (totalToken_number rnd p)
                    (less_bps rnd (Fin x) (Fin (of_int f))))
                 (buy_tax_number p))
       \<and> tokensOut (calculateBuyTokensOut binary64 (Some scenario_pool) (Some (Fin 1000))
                     (Some scenario_config))
           = Fin (274412237692159 / 8589934592)
       \<and> js_sub binary64 (Fin 1000) (Fin 10) = Fin 990
       \<and> js_add binary64 (Fin 30000) (Fin 990) = Fin 30990
       \<and> js_div binary64 (Fin 30000000000) (Fin 30990)
           = Fin (8315522354307841 / 8589934592)"
proof -
  have fee: "trading_fee_number cfg = Inr (Fin (of_int f))"
    using assms(3) by (rule trading_fee_number_cases)
  have "f \<le> 10000" using assms(3) by (auto simp: DEFAULT_TRADING_FEE_def)
  then have "(of_int f :: rat) \<le> 10000" by (metis of_int_le_iff of_int_numeral)
  then have "0 \<le> x * (1 - of_int f / 10000)" using assms(1) by simp
  then have d: "total_stable_units p + x * (1 - of_int f / 10000) \<noteq> 0"
    using assms(2) by linarith
  have g: "js_truthy (Fin x)" "\<not> js_le_zero (Fin x)"
    using positive_Fin_guard [OF assms(1)] by simp_all
  from buy_exact [OF assms(1) d fee] buy_composition [OF g fee] scenario_buy_tokensOut
  show ?thesis by (simp add: quote_steps)
qed

theorem calculateBuyTokensOut_steps_witness:
  "js_is (tokensOut (calculateBuyTokensOut Fin (Some scenario_pool) (Some (Fin 1000))
                      (Some scenario_config)))
     (33000000 / 1033)"
proof -
  have c: "Some scenario_config = None \<and> (100::int) = DEFAULT_TRADING_FEE
             \<or> (\<exists>c. Some scenario_config = Some c \<and> tradingFee c = Some 100
                    \<and> (0::int) < 100 \<and> (100::int) \<le> 10000)"
    by (simp add: scenario_config_def)
  have v: "spec_buyQuote_tokensOut 30000 1000000 1000 (of_int 100) 0 = 33000000 / 1033"
    by (simp add: spec_buyQuote_tokensOut_def Let_def)
  have h: "(0::rat) < 1000" "0 < total_stable_units scenario_pool"
    by (simp_all add: scenario_totals)
  from calculateBuyTokensOut_steps [OF h c, THEN conjunct1] show ?thesis
    by (simp only: scenario_totals v)
qed

section \<open>Sell quote\<close>










section \<open>Round trip\<close>




end
